theory Spec2Isabelle
  imports Main
begin

section \<open>Strings, glyphs and Python values\<close>

text \<open>
  Output strings are UTF-8 byte strings. The glyphs of
  \<^verbatim>\<open>domain/transformers/chat_responses.py\<close> are written as their UTF-8 bytes.
\<close>

definition glyph_missing :: string where
  \<comment> \<open>U+2A02, the placeholder for a missing cell\<close>
  "glyph_missing = [CHR 0xE2, CHR 0xA8, CHR 0x82]"

definition glyph_blue :: string where
  "glyph_blue = [CHR 0xF0, CHR 0x9F, CHR 0x94, CHR 0xB5]"

definition glyph_yellow :: string where
  "glyph_yellow = [CHR 0xF0, CHR 0x9F, CHR 0x9F, CHR 0xA1]"

definition glyph_green :: string where
  "glyph_green = [CHR 0xF0, CHR 0x9F, CHR 0x9F, CHR 0xA2]"

definition glyph_red :: string where
  "glyph_red = [CHR 0xF0, CHR 0x9F, CHR 0x94, CHR 0xB4]"

definition glyph_white :: string where
  "glyph_white = [CHR 0xE2, CHR 0x9A, CHR 0xAA]"

definition glyph_purple :: string where
  "glyph_purple = [CHR 0xF0, CHR 0x9F, CHR 0x9F, CHR 0xA3]"

definition glyph_orange :: string where
  "glyph_orange = [CHR 0xF0, CHR 0x9F, CHR 0x9F, CHR 0xA0]"

definition glyph_clock :: string where
  "glyph_clock = [CHR 0xF0, CHR 0x9F, CHR 0x95, CHR 0x97]"

definition glyph_channel :: string where
  "glyph_channel = [CHR 0xF0, CHR 0x9F, CHR 0x94, CHR 0x80]"

definition glyph_pr :: string where
  "glyph_pr = [CHR 0xF0, CHR 0x9F, CHR 0x94, CHR 0x81]"

definition glyph_issue :: string where
  "glyph_issue = [CHR 0xF0, CHR 0x9F, CHR 0x90, CHR 0x9B]"

definition glyph_repo :: string where
  "glyph_repo = [CHR 0xF0, CHR 0x9F, CHR 0x97, CHR 0x8E]"

text \<open>\<^verbatim>\<open>sep.join(xs)\<close> on a list of strings.\<close>

fun join :: "string \<Rightarrow> string list \<Rightarrow> string" where
  "join sep [] = []"
| "join sep [x] = x"
| "join sep (x # y # ys) = x @ sep @ join sep (y # ys)"

text \<open>Python truthiness of a value that is \<^verbatim>\<open>None\<close> or a string.\<close>

definition truthy :: "string option \<Rightarrow> bool" where
  "truthy v = (case v of None \<Rightarrow> False | Some s \<Rightarrow> s \<noteq> [])"

text \<open>What an f-string prints for a value that is \<^verbatim>\<open>None\<close> or a string.\<close>

definition py_str :: "string option \<Rightarrow> string" where
  "py_str v = (case v of None \<Rightarrow> ''None'' | Some s \<Rightarrow> s)"

text \<open>Decimal rendering of integers, as \<^verbatim>\<open>str(n)\<close> does.\<close>

function str_nat :: "nat \<Rightarrow> string" where
  "str_nat n =
     (if n < 10 then [''0123456789'' ! n]
      else str_nat (n div 10) @ [''0123456789'' ! (n mod 10)])"
  by pat_completeness auto
termination
  by (relation "measure id") auto

declare str_nat.simps [simp del]

definition str_int :: "int \<Rightarrow> string" where
  "str_int i = (if i < 0 then ''-'' @ str_nat (nat (- i)) else str_nat (nat i))"

text \<open>The exceptions the renderer can raise.\<close>

datatype error = KeyError string | TypeError

section \<open>Status icons\<close>

definition get_state_icon :: "string \<Rightarrow> bool \<Rightarrow> string" where
  "get_state_icon state has_warnings =
     (if state = ''Executing'' then glyph_blue
      else if state = ''Success'' then (if has_warnings then glyph_yellow else glyph_green)
      else if state = ''Failed'' then glyph_red
      else if state = ''Canceled'' then glyph_white
      else if state = ''TimedOut'' then glyph_red
      else if state = ''Cancelling'' then glyph_red
      else if state = ''Queued'' then glyph_purple
      else glyph_white)"

definition get_github_state_icon :: "string option \<Rightarrow> string option \<Rightarrow> string" where
  "get_github_state_icon status conclusion =
     (if status = Some ''in_progress'' then glyph_blue
      else if status = Some ''queued'' then glyph_purple
      else if conclusion = Some ''success'' then glyph_green
      else if conclusion = Some ''failure'' \<or> conclusion = Some ''timed_out'' then glyph_red
      else if conclusion = Some ''action_required'' then glyph_orange
      else if conclusion = Some ''cancelled'' \<or> conclusion = Some ''neutral''
              \<or> conclusion = Some ''skipped'' then glyph_white
      else glyph_white)"

section \<open>Table primitives\<close>

text \<open>
  \<^verbatim>\<open>build_markdown_table_row\<close>: the columns are a Python list whose items are strings or
  \<^verbatim>\<open>None\<close> (an environment name that was not found); \<^verbatim>\<open>' | '.join\<close> raises
  \<^verbatim>\<open>TypeError\<close> on a \<^verbatim>\<open>None\<close> item.
\<close>

definition build_markdown_table_row :: "string option list \<Rightarrow> error + string" where
  "build_markdown_table_row columns =
     (if columns = [] then Inr []
      else if None \<in> set columns then Inl TypeError
      else Inr (''| '' @ join '' | '' (map the columns) @ '' |'' @ ''\<newline>''))"

definition build_markdown_table_header_separator :: "nat \<Rightarrow> string" where
  "build_markdown_table_header_separator count =
     (if count = 0 then []
      else join ''-'' (replicate (count + 1) ''|'') @ ''\<newline>'')"

section \<open>Python containers and exceptions\<close>

text \<open>\<^verbatim>\<open>x or []\<close> for an optional list argument; \<^verbatim>\<open>if x:\<close> holds iff it is non-empty.\<close>

definition or_empty :: "'a list option \<Rightarrow> 'a list" where
  "or_empty xs = (case xs of None \<Rightarrow> [] | Some l \<Rightarrow> l)"

text \<open>Sequencing of computations that may raise: the first exception ends the call.\<close>

definition rbind :: "error + 'a \<Rightarrow> ('a \<Rightarrow> error + 'b) \<Rightarrow> error + 'b" where
  "rbind m f = (case m of Inl e \<Rightarrow> Inl e | Inr x \<Rightarrow> f x)"

fun rmap :: "('a \<Rightarrow> error + 'b) \<Rightarrow> 'a list \<Rightarrow> error + 'b list" where
  "rmap f [] = Inr []"
| "rmap f (x # xs) = rbind (f x) (\<lambda>y. rbind (rmap f xs) (\<lambda>ys. Inr (y # ys)))"

text \<open>\<^verbatim>\<open>d[key]\<close> on the snapshot: a key that is absent raises \<^verbatim>\<open>KeyError\<close>.\<close>

definition lookup_key :: "string \<Rightarrow> 'a option \<Rightarrow> error + 'a" where
  "lookup_key k v = (case v of None \<Rightarrow> Inl (KeyError k) | Some x \<Rightarrow> Inr x)"

text \<open>
  A Python dict with string keys, in insertion order: iteration yields \<open>dict_keys\<close>,
  \<^verbatim>\<open>d.get(k)\<close> is \<open>map_of d k\<close>, \<^verbatim>\<open>d[k]\<close> is \<open>dict_item\<close>.
\<close>

type_synonym 'v dict = "(string \<times> 'v) list"

definition dict_keys :: "'v dict \<Rightarrow> string list" where
  "dict_keys d = map fst d"

definition dict_item :: "'v dict \<Rightarrow> string \<Rightarrow> error + 'v" where
  "dict_item d k = lookup_key k (map_of d k)"

section \<open>The snapshot\<close>

record environment =
  env_Id :: string
  env_Name :: string

record project_group =
  pg_Id :: string
  pg_Name :: string
  pg_EnvironmentIds :: "string list"

record project =
  proj_Id :: string
  proj_Name :: string
  proj_ProjectGroupId :: string

record deployment =
  dep_ProjectId :: string
  dep_EnvironmentId :: string
  dep_TenantId :: "string option"
  dep_ReleaseId :: string
  dep_ReleaseVersion :: string
  dep_DeploymentId :: string
  dep_ChannelId :: string
  dep_Created :: string
  dep_State :: string
  dep_HasWarningsOrErrors :: bool

record release =
  rel_Release_Id :: string
  rel_Deployments :: "deployment list dict"

record tenant =
  ten_Id :: "string option"
  ten_Name :: string
  ten_ProjectEnvironments :: "string list dict"

record runbook_run =
  run_TenantId :: "string option"
  run_Created :: string
  run_State :: string
  run_HasWarningsOrErrors :: bool

text \<open>The snapshot is a dict: a top-level key that is absent is \<open>None\<close>.\<close>

record dashboard =
  Environments :: "environment list option"
  ProjectGroups :: "project_group list option"
  Projects :: "project list option"
  Items :: "deployment list option"
  Releases :: "release list option"
  Tenants :: "tenant list option"
  RunbookRuns :: "runbook_run list dict option"

subsection \<open>Enrichment collections\<close>

record github_repo =
  gh_ProjectId :: string
  gh_Owner :: string
  gh_Repo :: string

record github_actions_status =
  gas_ProjectId :: string
  gas_Status :: "string option"
  gas_Conclusion :: "string option"
  gas_Name :: "string option"
  gas_ShortSha :: "string option"
  gas_Url :: "string option"
  gas_CreatedAt :: "int option"

record workflow_run =
  wr_ReleaseId :: string
  wr_Status :: "string option"
  wr_Conclusion :: "string option"
  wr_Name :: "string option"
  wr_ShortSha :: "string option"
  wr_Url :: "string option"

record count_summary =
  cnt_ProjectId :: string
  cnt_Count :: "int option"

record highlight =
  hl_DeploymentId :: string
  hl_Highlights :: string

subsection \<open>Collaborators outside the renderer\<close>

text \<open>
  Timestamps are seconds (\<open>int\<close>); a duration is their difference.
  \<^verbatim>\<open>parse_unknown_format_date\<close>, \<^verbatim>\<open>get_date_difference_summary\<close> and
  \<^verbatim>\<open>get_channel_cached\<close> (of which only \<^verbatim>\<open>['Name']\<close> is read) are imported from modules
  that are not part of the rendering code; they are parameters of the model.
\<close>

record collaborators =
  parse_unknown_format_date :: "string \<Rightarrow> int"
  get_date_difference_summary :: "int \<Rightarrow> string"
  get_channel_cached :: "string \<Rightarrow> string \<Rightarrow> string \<Rightarrow> string \<Rightarrow> string"

text \<open>
  \<^verbatim>\<open>datetime.now(pytz.utc)\<close> reads the system clock. A clock gives the reading of the
  \<open>n\<close>-th read of one render call; the render functions count their reads.
\<close>

type_synonym clock = "nat \<Rightarrow> int"

text \<open>
  Modelled from the spec: \<^verbatim>\<open>yield_first\<close> of \<^verbatim>\<open>domain.sanitizers.sanitized_list\<close> is
  not among the sources. The spec: of the matching workflow runs "only the first such
  match is used", an explicit "find first satisfying predicate" whose later matches are
  silently dropped.
\<close>

fun yield_first :: "'a list \<Rightarrow> 'a list" where
  "yield_first [] = []"
| "yield_first (x # xs) = [x]"

section \<open>Links and enrichment lines\<close>

definition build_deployment_url :: "string \<Rightarrow> string \<Rightarrow> string \<Rightarrow> string \<Rightarrow> string \<Rightarrow> string" where
  "build_deployment_url octopus_url space_id project_id release_version deployment_id =
     octopus_url @ ''/app#/'' @ space_id @ ''/projects/'' @ project_id
       @ ''/deployments/releases/'' @ release_version @ ''/deployments/'' @ deployment_id"

definition build_repo_link :: "github_repo option \<Rightarrow> string list" where
  "build_repo_link github_repo =
     (case github_repo of
        None \<Rightarrow> []
      | Some r \<Rightarrow> [glyph_repo @ '' [GitHub Repo](https://github.com/'' @ gh_Owner r @ ''/''
                     @ gh_Repo r @ '')''])"

definition get_project_workflow_status ::
  "collaborators \<Rightarrow> int \<Rightarrow> github_actions_status list option \<Rightarrow> string \<Rightarrow> string list" where
  "get_project_workflow_status X now github_actions_statuses project_id =
     (if or_empty github_actions_statuses \<noteq> [] then
        (case find (\<lambda>x. gas_ProjectId x = project_id \<and> truthy (gas_Status x))
                (or_empty github_actions_statuses) of
           None \<Rightarrow> []
         | Some s \<Rightarrow>
             [get_github_state_icon (gas_Status s) (gas_Conclusion s) @ '' ['' @ py_str (gas_Name s)
                @ '' '' @ py_str (gas_ShortSha s) @ '']('' @ py_str (gas_Url s) @ '')'']
             @ (case gas_CreatedAt s of
                  None \<Rightarrow> []
                | Some t \<Rightarrow> [glyph_clock @ '' '' @ get_date_difference_summary X (now - t)
                               @ '' ago'']))
      else [])"

definition count_str :: "int option \<Rightarrow> string" where
  "count_str c = (case c of None \<Rightarrow> ''None'' | Some n \<Rightarrow> str_int n)"

definition build_pr_response :: "count_summary option \<Rightarrow> github_repo option \<Rightarrow> string list" where
  "build_pr_response pull_requests github_repo =
     (case pull_requests of
        None \<Rightarrow> []
      | Some pr \<Rightarrow>
          (case github_repo of
             None \<Rightarrow> []
           | Some r \<Rightarrow>
               [glyph_pr @ '' ['' @ count_str (cnt_Count pr) @ '' PR''
                  @ (if cnt_Count pr \<noteq> Some 1 then ''s'' else [])
                  @ ''](https://github.com/'' @ gh_Owner r @ ''/'' @ gh_Repo r @ ''/pulls)'']))"

definition build_pr_response_for_project ::
  "count_summary list option \<Rightarrow> string \<Rightarrow> github_repo option \<Rightarrow> string list" where
  "build_pr_response_for_project pull_requests project_id github_repo =
     (if or_empty pull_requests = [] then []
      else build_pr_response (find (\<lambda>x. cnt_ProjectId x = project_id) (or_empty pull_requests))
             github_repo)"

definition build_issue_response :: "count_summary option \<Rightarrow> github_repo option \<Rightarrow> string list" where
  "build_issue_response issues github_repo =
     (case issues of
        None \<Rightarrow> []
      | Some i \<Rightarrow>
          (case github_repo of
             None \<Rightarrow> []
           | Some r \<Rightarrow>
               [glyph_issue @ '' ['' @ count_str (cnt_Count i) @ '' issue''
                  @ (if cnt_Count i \<noteq> Some 1 then ''s'' else [])
                  @ ''](https://github.com/'' @ gh_Owner r @ ''/'' @ gh_Repo r @ ''/issues)'']))"

definition build_issue_response_for_project ::
  "count_summary list option \<Rightarrow> string \<Rightarrow> github_repo option \<Rightarrow> string list" where
  "build_issue_response_for_project issues project_id github_repo =
     (if or_empty issues = [] then []
      else build_issue_response (find (\<lambda>x. cnt_ProjectId x = project_id) (or_empty issues))
             github_repo)"

text \<open>
  The two lines every deployment cell starts with: icon and release link, then the
  relative time.
\<close>

definition deployment_link :: "string \<Rightarrow> string \<Rightarrow> deployment \<Rightarrow> string" where
  "deployment_link octopus_url space_id d =
     get_state_icon (dep_State d) (dep_HasWarningsOrErrors d) @ '' ['' @ dep_ReleaseVersion d
       @ '']('' @ build_deployment_url octopus_url space_id (dep_ProjectId d)
                   (dep_ReleaseVersion d) (dep_DeploymentId d) @ '')''"

definition deployment_age :: "collaborators \<Rightarrow> int \<Rightarrow> deployment \<Rightarrow> string" where
  "deployment_age X now d =
     glyph_clock @ '' ''
       @ get_date_difference_summary X (now - parse_unknown_format_date X (dep_Created d))
       @ '' ago''"

text \<open>The workflow run of a release: the first run that matches, and no other.\<close>

definition workflow_run_line :: "workflow_run \<Rightarrow> string" where
  "workflow_run_line x =
     get_github_state_icon (wr_Status x) (wr_Conclusion x) @ '' ['' @ py_str (wr_Name x)
       @ '' '' @ py_str (wr_ShortSha x) @ '']('' @ py_str (wr_Url x) @ '')''"

definition workflow_run_matches :: "string \<Rightarrow> workflow_run \<Rightarrow> bool" where
  "workflow_run_matches release_id x =
     (wr_ReleaseId x = release_id \<and> truthy (wr_ShortSha x) \<and> truthy (wr_Url x))"

definition matching_releases :: "string \<Rightarrow> workflow_run list option \<Rightarrow> workflow_run list" where
  "matching_releases release_id release_workflow_runs =
     yield_first (filter (workflow_run_matches release_id) (or_empty release_workflow_runs))"

definition highlight_lines :: "string \<Rightarrow> highlight list option \<Rightarrow> string list" where
  "highlight_lines deployment_id deployment_highlights =
     map hl_Highlights
       (filter (\<lambda>x. hl_DeploymentId x = deployment_id) (or_empty deployment_highlights))"

section \<open>The space dashboard\<close>

definition get_env_name :: "dashboard \<Rightarrow> string \<Rightarrow> error + string option" where
  "get_env_name dashboard environment_id =
     rbind (lookup_key ''Environments'' (Environments dashboard)) (\<lambda>envs.
       Inr (map_option env_Name (find (\<lambda>e. env_Id e = environment_id) envs)))"

text \<open>The header columns of a project group's table.\<close>

definition dashboard_columns ::
  "dashboard \<Rightarrow> github_actions_status list option \<Rightarrow> project_group
     \<Rightarrow> error + string option list" where
  "dashboard_columns dashboard github_actions_status project_group =
     rbind (rmap (get_env_name dashboard) (pg_EnvironmentIds project_group)) (\<lambda>names.
       Inr (Some (pg_Name project_group)
              # (if or_empty github_actions_status \<noteq> [] then [Some ''GitHub''] else [])
              @ names))"

text \<open>
  A project's row is appended to the table piece by piece; each piece opens one cell.
  The GitHub cell exists only when \<^verbatim>\<open>github_actions_status\<close> is given; \<open>wnow\<close> is the clock
  reading \<^verbatim>\<open>get_project_workflow_status\<close> takes.
\<close>

definition dashboard_github_cell ::
  "collaborators \<Rightarrow> int \<Rightarrow> github_repo list option \<Rightarrow> github_actions_status list option
     \<Rightarrow> count_summary list option \<Rightarrow> count_summary list option \<Rightarrow> project \<Rightarrow> string list" where
  "dashboard_github_cell X wnow github_actions github_actions_status pull_requests issues project =
     (let github_repo =
            (if or_empty github_actions \<noteq> [] then
               find (\<lambda>x. gh_ProjectId x = proj_Id project \<and> gh_Repo x \<noteq> [] \<and> gh_Owner x \<noteq> [])
                 (or_empty github_actions)
             else None)
      in if or_empty github_actions_status \<noteq> [] then
           (let github_messages =
                  build_repo_link github_repo
                  @ get_project_workflow_status X wnow github_actions_status (proj_Id project)
                  @ build_pr_response_for_project pull_requests (proj_Id project) github_repo
                  @ build_issue_response_for_project issues (proj_Id project) github_repo
            in if github_messages \<noteq> [] then [''| '' @ join ''<br/>'' github_messages]
               else [''| '' @ glyph_missing @ '' ''])
         else [])"

definition dashboard_environment_cell ::
  "collaborators \<Rightarrow> int \<Rightarrow> string \<Rightarrow> string \<Rightarrow> dashboard \<Rightarrow> project \<Rightarrow> string
     \<Rightarrow> error + string" where
  "dashboard_environment_cell X now octopus_url space_id dashboard project environment =
     rbind (lookup_key ''Items'' (Items dashboard)) (\<lambda>items.
       Inr (case filter (\<lambda>d. dep_ProjectId d = proj_Id project \<and> dep_EnvironmentId d = environment)
                   items of
              [] \<Rightarrow> ''| '' @ glyph_missing @ '' ''
            | last_deployment # _ \<Rightarrow>
                ''| '' @ join ''<br/>'' [deployment_link octopus_url space_id last_deployment,
                                          deployment_age X now last_deployment]))"

definition dashboard_project_cells ::
  "collaborators \<Rightarrow> int \<Rightarrow> int \<Rightarrow> string \<Rightarrow> string \<Rightarrow> dashboard \<Rightarrow> github_repo list option
     \<Rightarrow> github_actions_status list option \<Rightarrow> count_summary list option
     \<Rightarrow> count_summary list option \<Rightarrow> project_group \<Rightarrow> project \<Rightarrow> error + string list" where
  "dashboard_project_cells X now wnow octopus_url space_id dashboard github_actions
       github_actions_status pull_requests issues project_group project =
     rbind (rmap (dashboard_environment_cell X now octopus_url space_id dashboard project)
              (pg_EnvironmentIds project_group)) (\<lambda>cells.
       Inr ([''| '' @ proj_Name project @ '' '']
            @ dashboard_github_cell X wnow github_actions github_actions_status pull_requests
                issues project
            @ cells))"

text \<open>
  The loops of \<^verbatim>\<open>get_dashboard_response\<close>. The counter \<open>n\<close> is the number of clock reads
  so far: \<^verbatim>\<open>get_project_workflow_status\<close> reads the clock once per project, and is called
  only when \<^verbatim>\<open>github_actions_status\<close> is given.
\<close>

fun dashboard_project_rows ::
  "collaborators \<Rightarrow> clock \<Rightarrow> string \<Rightarrow> string \<Rightarrow> dashboard \<Rightarrow> github_repo list option
     \<Rightarrow> github_actions_status list option \<Rightarrow> count_summary list option
     \<Rightarrow> count_summary list option \<Rightarrow> project_group \<Rightarrow> nat \<Rightarrow> project list
     \<Rightarrow> error + string \<times> nat" where
  "dashboard_project_rows X clock octopus_url space_id dashboard github_actions
       github_actions_status pull_requests issues project_group n [] = Inr ([], n)"
| "dashboard_project_rows X clock octopus_url space_id dashboard github_actions
       github_actions_status pull_requests issues project_group n (project # projects) =
     rbind (dashboard_project_cells X (clock 0) (clock n) octopus_url space_id dashboard
              github_actions github_actions_status pull_requests issues project_group project)
       (\<lambda>cells.
     rbind (dashboard_project_rows X clock octopus_url space_id dashboard github_actions
              github_actions_status pull_requests issues project_group
              (if or_empty github_actions_status \<noteq> [] then Suc n else n) projects)
       (\<lambda>(rows, n'). Inr (concat cells @ ''|\<newline>'' @ rows, n')))"

definition dashboard_group ::
  "collaborators \<Rightarrow> clock \<Rightarrow> string \<Rightarrow> string \<Rightarrow> dashboard \<Rightarrow> github_repo list option
     \<Rightarrow> github_actions_status list option \<Rightarrow> count_summary list option
     \<Rightarrow> count_summary list option \<Rightarrow> nat \<Rightarrow> project_group \<Rightarrow> error + string \<times> nat" where
  "dashboard_group X clock octopus_url space_id dashboard github_actions github_actions_status
       pull_requests issues n project_group =
     rbind (dashboard_columns dashboard github_actions_status project_group) (\<lambda>columns.
     rbind (build_markdown_table_row columns) (\<lambda>header.
     rbind (lookup_key ''Projects'' (Projects dashboard)) (\<lambda>all_projects.
     rbind (dashboard_project_rows X clock octopus_url space_id dashboard github_actions
              github_actions_status pull_requests issues project_group n
              (filter (\<lambda>p. proj_ProjectGroupId p = pg_Id project_group) all_projects))
       (\<lambda>(rows, n').
          Inr (header @ build_markdown_table_header_separator (length columns) @ rows
                 @ ''\<newline>'', n')))))"

fun dashboard_groups ::
  "collaborators \<Rightarrow> clock \<Rightarrow> string \<Rightarrow> string \<Rightarrow> dashboard \<Rightarrow> github_repo list option
     \<Rightarrow> github_actions_status list option \<Rightarrow> count_summary list option
     \<Rightarrow> count_summary list option \<Rightarrow> nat \<Rightarrow> project_group list \<Rightarrow> error + string \<times> nat" where
  "dashboard_groups X clock octopus_url space_id dashboard github_actions github_actions_status
       pull_requests issues n [] = Inr ([], n)"
| "dashboard_groups X clock octopus_url space_id dashboard github_actions github_actions_status
       pull_requests issues n (project_group # groups) =
     rbind (dashboard_group X clock octopus_url space_id dashboard github_actions
              github_actions_status pull_requests issues n project_group) (\<lambda>(t, n').
     rbind (dashboard_groups X clock octopus_url space_id dashboard github_actions
              github_actions_status pull_requests issues n' groups) (\<lambda>(ts, n'').
       Inr (t @ ts, n'')))"

definition get_dashboard_response ::
  "collaborators \<Rightarrow> clock \<Rightarrow> string \<Rightarrow> string \<Rightarrow> string \<Rightarrow> dashboard
     \<Rightarrow> github_repo list option \<Rightarrow> github_actions_status list option
     \<Rightarrow> count_summary list option \<Rightarrow> count_summary list option \<Rightarrow> error + string" where
  "get_dashboard_response X clock octopus_url space_id space_name dashboard github_actions
       github_actions_status pull_requests issues =
     rbind (lookup_key ''ProjectGroups'' (ProjectGroups dashboard)) (\<lambda>groups.
     rbind (dashboard_groups X clock octopus_url space_id dashboard github_actions
              github_actions_status pull_requests issues 1 groups) (\<lambda>(t, _).
       Inr (''# '' @ space_name @ ''\<newline>\<newline>'' @ t)))"

section \<open>The project dashboard\<close>

text \<open>The lines above the table, shared with the tenant progression view.\<close>

definition project_message ::
  "collaborators \<Rightarrow> int \<Rightarrow> github_repo option \<Rightarrow> github_actions_status list option \<Rightarrow> string
     \<Rightarrow> count_summary option \<Rightarrow> count_summary option \<Rightarrow> string" where
  "project_message X wnow github_repo github_actions_statuses project_id pull_requests issues =
     (let message =
            build_repo_link github_repo
            @ get_project_workflow_status X wnow github_actions_statuses project_id
            @ build_pr_response pull_requests github_repo
            @ build_issue_response issues github_repo
      in if message \<noteq> [] then join ''<br/>'' message @ ''\<newline>\<newline>'' else [])"

text \<open>
  The cells one (environment, release) pair appends: one per deployment of the release to
  the environment, or the placeholder when the release has no entry for it.
\<close>

definition project_release_cells ::
  "collaborators \<Rightarrow> int \<Rightarrow> string \<Rightarrow> string \<Rightarrow> workflow_run list option
     \<Rightarrow> highlight list option \<Rightarrow> environment \<Rightarrow> release \<Rightarrow> string list" where
  "project_release_cells X now octopus_url space_id release_workflow_runs deployment_highlights
       environment release =
     (case map_of (rel_Deployments release) (env_Id environment) of
        None \<Rightarrow> [''| '' @ glyph_missing @ '' '']
      | Some deployments \<Rightarrow>
          map (\<lambda>deployment.
                 ''| '' @ join ''<br/>''
                   ([deployment_link octopus_url space_id deployment,
                     deployment_age X now deployment]
                    @ map workflow_run_line
                        (matching_releases (rel_Release_Id release) release_workflow_runs)
                    @ highlight_lines (dep_DeploymentId deployment) deployment_highlights))
            deployments)"

definition project_dashboard_cells ::
  "collaborators \<Rightarrow> int \<Rightarrow> string \<Rightarrow> string \<Rightarrow> dashboard \<Rightarrow> workflow_run list option
     \<Rightarrow> highlight list option \<Rightarrow> error + string list" where
  "project_dashboard_cells X now octopus_url space_id dashboard release_workflow_runs
       deployment_highlights =
     rbind (lookup_key ''Environments'' (Environments dashboard)) (\<lambda>envs.
     rbind (rmap (\<lambda>environment.
                    rbind (lookup_key ''Releases'' (Releases dashboard)) (\<lambda>releases.
                      Inr (concat (map (project_release_cells X now octopus_url space_id
                                          release_workflow_runs deployment_highlights
                                          environment) releases))))
              envs) (\<lambda>cells.
       Inr (concat cells)))"

definition get_project_dashboard_response ::
  "collaborators \<Rightarrow> clock \<Rightarrow> string \<Rightarrow> string \<Rightarrow> string \<Rightarrow> string \<Rightarrow> string \<Rightarrow> dashboard
     \<Rightarrow> github_repo option \<Rightarrow> github_actions_status list option \<Rightarrow> count_summary option
     \<Rightarrow> count_summary option \<Rightarrow> workflow_run list option \<Rightarrow> highlight list option
     \<Rightarrow> error + string" where
  "get_project_dashboard_response X clock octopus_url space_id space_name project_name project_id
       dashboard github_repo github_actions_statuses pull_requests issues release_workflow_runs
       deployment_highlights =
     (let message = project_message X (clock 1) github_repo github_actions_statuses project_id
                      pull_requests issues
      in rbind (lookup_key ''Environments'' (Environments dashboard)) (\<lambda>envs.
         rbind (build_markdown_table_row (map (\<lambda>e. Some (env_Name e)) envs)) (\<lambda>header.
         rbind (project_dashboard_cells X (clock 0) octopus_url space_id dashboard
                  release_workflow_runs deployment_highlights) (\<lambda>cells.
           Inr (''# '' @ space_name @ '' / '' @ project_name @ ''\<newline>\<newline>'' @ message
                  @ header @ build_markdown_table_header_separator (length envs)
                  @ concat cells @ ''|  '')))))"

section \<open>The tenant progression view\<close>

definition get_tenant_environments :: "tenant \<Rightarrow> dashboard \<Rightarrow> string \<Rightarrow> error + string list" where
  "get_tenant_environments tenant dashboard project_id =
     rbind (lookup_key ''Environments'' (Environments dashboard)) (\<lambda>envs.
       Inr (map env_Id
              (filter (\<lambda>project_environment.
                         if truthy (ten_Id tenant) then
                           env_Id project_environment
                             \<in> set (case map_of (ten_ProjectEnvironments tenant) project_id of
                                      None \<Rightarrow> []
                                    | Some ids \<Rightarrow> ids)
                         else True)
                 envs)))"

definition get_tenant_environment_details ::
  "string list \<Rightarrow> dashboard \<Rightarrow> error + environment list" where
  "get_tenant_environment_details environments_ids dashboard =
     rbind (rmap (\<lambda>environment.
                    rbind (get_env_name dashboard environment) (\<lambda>environment_name.
                      Inr (case environment_name of
                             None \<Rightarrow> []
                           | Some name \<Rightarrow>
                               if name \<noteq> [] then [\<lparr>env_Id = environment, env_Name = name\<rparr>]
                               else [])))
              environments_ids) (\<lambda>found.
       Inr (concat found))"

text \<open>
  The scan of \<^verbatim>\<open>dashboard["Items"]\<close> for one tenant and environment: the first deployment
  whose environment id and tenant id both equal the column's (\<^verbatim>\<open>None == None\<close> included).
\<close>

definition tenant_deployment :: "tenant \<Rightarrow> environment \<Rightarrow> deployment list \<Rightarrow> deployment option" where
  "tenant_deployment tenant environment items =
     find (\<lambda>deployment.
             dep_EnvironmentId deployment = env_Id environment
             \<and> dep_TenantId deployment = ten_Id tenant)
       items"

definition tenant_column ::
  "collaborators \<Rightarrow> int \<Rightarrow> string \<Rightarrow> string \<Rightarrow> string \<Rightarrow> workflow_run list option
     \<Rightarrow> highlight list option \<Rightarrow> tenant \<Rightarrow> deployment list \<Rightarrow> environment \<Rightarrow> string" where
  "tenant_column X now space_id api_key url release_workflow_runs deployment_highlights tenant
       items environment =
     (case tenant_deployment tenant environment items of
        None \<Rightarrow> glyph_missing
      | Some deployment \<Rightarrow>
          join ''<br/>''
            ([deployment_link url space_id deployment,
              glyph_channel @ '' ''
                @ get_channel_cached X space_id (dep_ChannelId deployment) api_key url,
              deployment_age X now deployment]
             @ map workflow_run_line
                 (matching_releases (dep_ReleaseId deployment) release_workflow_runs)
             @ highlight_lines (dep_DeploymentId deployment) deployment_highlights))"

definition tenant_columns ::
  "collaborators \<Rightarrow> int \<Rightarrow> string \<Rightarrow> string \<Rightarrow> string \<Rightarrow> workflow_run list option
     \<Rightarrow> highlight list option \<Rightarrow> dashboard \<Rightarrow> tenant \<Rightarrow> environment list
     \<Rightarrow> error + string list" where
  "tenant_columns X now space_id api_key url release_workflow_runs deployment_highlights dashboard
       tenant environments =
     rmap (\<lambda>environment.
             rbind (lookup_key ''Items'' (Items dashboard)) (\<lambda>items.
               Inr (tenant_column X now space_id api_key url release_workflow_runs
                      deployment_highlights tenant items environment)))
       environments"

text \<open>A tenant's table, from the environment ids derived for the tenant.\<close>

definition tenant_table ::
  "collaborators \<Rightarrow> int \<Rightarrow> string \<Rightarrow> string \<Rightarrow> string \<Rightarrow> workflow_run list option
     \<Rightarrow> highlight list option \<Rightarrow> dashboard \<Rightarrow> tenant \<Rightarrow> string list \<Rightarrow> error + string" where
  "tenant_table X now space_id api_key url release_workflow_runs deployment_highlights dashboard
       tenant environments_ids =
     rbind (get_tenant_environment_details environments_ids dashboard) (\<lambda>environments.
     rbind (build_markdown_table_row (map (\<lambda>e. Some (env_Name e)) environments)) (\<lambda>header.
     rbind (tenant_columns X now space_id api_key url release_workflow_runs
              deployment_highlights dashboard tenant environments) (\<lambda>columns.
     rbind (if columns \<noteq> [] then build_markdown_table_row (map Some columns)
            else Inr ''\<newline>No deployments'') (\<lambda>body.
       Inr (header @ build_markdown_table_header_separator (length environments) @ body
              @ ''\<newline>\<newline>'')))))"

definition tenant_section ::
  "collaborators \<Rightarrow> int \<Rightarrow> string \<Rightarrow> string \<Rightarrow> string \<Rightarrow> string \<Rightarrow> workflow_run list option
     \<Rightarrow> highlight list option \<Rightarrow> dashboard \<Rightarrow> tenant \<Rightarrow> error + string" where
  "tenant_section X now space_id api_key url project_id release_workflow_runs
       deployment_highlights dashboard tenant =
     rbind (get_tenant_environments tenant dashboard project_id) (\<lambda>environments_ids.
     rbind (tenant_table X now space_id api_key url release_workflow_runs deployment_highlights
              dashboard tenant environments_ids) (\<lambda>t.
       Inr (''## '' @ ten_Name tenant @ ''\<newline>'' @ t)))"

definition get_project_tenant_progression_response ::
  "collaborators \<Rightarrow> clock \<Rightarrow> string \<Rightarrow> string \<Rightarrow> string \<Rightarrow> string \<Rightarrow> dashboard
     \<Rightarrow> github_repo option \<Rightarrow> github_actions_status list option \<Rightarrow> workflow_run list option
     \<Rightarrow> count_summary option \<Rightarrow> count_summary option \<Rightarrow> highlight list option
     \<Rightarrow> string \<Rightarrow> string \<Rightarrow> error + string" where
  "get_project_tenant_progression_response X clock space_id space_name project_name project_id
       dashboard github_repo github_actions_statuses release_workflow_runs pull_requests issues
       deployment_highlights api_key url =
     (let message = project_message X (clock 1) github_repo github_actions_statuses project_id
                      pull_requests issues
      in rbind (lookup_key ''Tenants'' (Tenants dashboard)) (\<lambda>tenants.
         rbind (rmap (tenant_section X (clock 0) space_id api_key url project_id
                        release_workflow_runs deployment_highlights dashboard) tenants)
           (\<lambda>sections.
           Inr (''# '' @ space_name @ '' / '' @ project_name @ ''\<newline>\<newline>'' @ message
                  @ concat sections))))"

section \<open>The runbook dashboard\<close>

record runbook =
  rb_Name :: string

text \<open>The tenant a run is listed under: a run without tenant id goes under the sentinel.\<close>

definition run_tenant :: "runbook_run \<Rightarrow> string" where
  "run_tenant run =
     (case run_TenantId run of
        None \<Rightarrow> ''Untenanted''
      | Some t \<Rightarrow> if t \<noteq> [] then t else ''Untenanted'')"

definition build_runbook_run_columns ::
  "collaborators \<Rightarrow> runbook_run \<Rightarrow> int \<Rightarrow> (string \<Rightarrow> string) \<Rightarrow> string list" where
  "build_runbook_run_columns X run now get_tenant =
     [case run_TenantId run of
        None \<Rightarrow> ''Untenanted''
      | Some t \<Rightarrow> if t \<noteq> [] then get_tenant t else ''Untenanted'',
      get_state_icon (run_State run) (run_HasWarningsOrErrors run) @ '' ''
        @ get_date_difference_summary X (now - parse_unknown_format_date X (run_Created run))
        @ '' ago'']"

definition add_tenant :: "runbook_run \<Rightarrow> string list \<Rightarrow> string list" where
  "add_tenant run tenants =
     (if run_tenant run \<in> set tenants then tenants else tenants @ [run_tenant run])"

fun get_tenants_loop ::
  "runbook_run list dict \<Rightarrow> string list \<Rightarrow> string list \<Rightarrow> error + string list" where
  "get_tenants_loop runbook_runs [] tenants = Inr tenants"
| "get_tenants_loop runbook_runs (environment # environments) tenants =
     rbind (dict_item runbook_runs environment) (\<lambda>runs.
       get_tenants_loop runbook_runs environments (fold add_tenant runs tenants))"

definition get_tenants :: "dashboard \<Rightarrow> error + string list" where
  "get_tenants dashboard =
     rbind (lookup_key ''RunbookRuns'' (RunbookRuns dashboard)) (\<lambda>runbook_runs.
       get_tenants_loop runbook_runs (dict_keys runbook_runs) [])"

definition run_matches :: "string \<Rightarrow> runbook_run \<Rightarrow> bool" where
  "run_matches tenant run =
     (run_TenantId run = Some tenant
      \<or> (\<not> truthy (run_TenantId run) \<and> tenant = ''Untenanted''))"

text \<open>The rows of one tenant and environment: one per matching run.\<close>

definition runbook_rows ::
  "collaborators \<Rightarrow> int \<Rightarrow> (string \<Rightarrow> string) \<Rightarrow> runbook_run list dict \<Rightarrow> string \<Rightarrow> string
     \<Rightarrow> error + string list" where
  "runbook_rows X dt get_tenant runbook_runs tenant environment =
     rbind (dict_item runbook_runs environment) (\<lambda>all_runs.
       rmap (\<lambda>run. build_markdown_table_row
                      (map Some (build_runbook_run_columns X run dt get_tenant)))
         (filter (run_matches tenant) all_runs))"

definition runbook_body ::
  "collaborators \<Rightarrow> int \<Rightarrow> (string \<Rightarrow> string) \<Rightarrow> runbook_run list dict \<Rightarrow> string list
     \<Rightarrow> string list \<Rightarrow> error + string list" where
  "runbook_body X dt get_tenant runbook_runs tenants environment_ids =
     rbind (rmap (\<lambda>tenant.
                    rbind (rmap (runbook_rows X dt get_tenant runbook_runs tenant)
                             environment_ids) (\<lambda>rows. Inr (concat rows)))
              tenants) (\<lambda>rows.
       Inr (concat rows))"

definition get_runbook_dashboard_response ::
  "collaborators \<Rightarrow> clock \<Rightarrow> project \<Rightarrow> runbook \<Rightarrow> dashboard \<Rightarrow> (string \<Rightarrow> string)
     \<Rightarrow> error + string" where
  "get_runbook_dashboard_response X clock project runbook dashboard get_tenant =
     rbind (get_tenants dashboard) (\<lambda>tenants.
     rbind (lookup_key ''RunbookRuns'' (RunbookRuns dashboard)) (\<lambda>runbook_runs.
     rbind (rmap (get_env_name dashboard) (dict_keys runbook_runs)) (\<lambda>environment_names.
     rbind (build_markdown_table_row (Some [] # environment_names)) (\<lambda>header.
     rbind (runbook_body X (clock 0) get_tenant runbook_runs tenants (dict_keys runbook_runs))
       (\<lambda>rows.
       Inr (proj_Name project @ '' / '' @ rb_Name runbook @ ''\<newline>\<newline>'' @ header
              @ build_markdown_table_header_separator (Suc (length environment_names))
              @ concat rows))))))"

section \<open>Relative time\<close>

text \<open>
  Modelled from the spec: \<^verbatim>\<open>get_date_difference_summary\<close> of
  \<^verbatim>\<open>domain.date.date_difference\<close> is not among the sources. The spec: the largest whole
  unit among seconds, minutes, hours, days, with the unit pluralised ("3 hours", "2 days",
  "1 hour"); a zero duration yields "0 seconds". It is used where a theorem evaluates a
  render call on a concrete input; the render functions take the function as a parameter.
\<close>

definition unit_phrase :: "int \<Rightarrow> string \<Rightarrow> string" where
  "unit_phrase n unit = str_int n @ '' '' @ unit @ (if n = 1 then [] else ''s'')"

definition date_difference_summary :: "int \<Rightarrow> string" where
  "date_difference_summary seconds =
     (if seconds < 60 then unit_phrase seconds ''second''
      else if seconds < 3600 then unit_phrase (seconds div 60) ''minute''
      else if seconds < 86400 then unit_phrase (seconds div 3600) ''hour''
      else unit_phrase (seconds div 86400) ''day'')"

section \<open>Reading an output, and concrete inputs\<close>

text \<open>The lines of a rendered string; a call that raised has none.\<close>

fun split_lines :: "string \<Rightarrow> string list" where
  "split_lines [] = [[]]"
| "split_lines (c # cs) =
     (if c = CHR 0x0A then [] # split_lines cs
      else (case split_lines cs of [] \<Rightarrow> [[c]] | l # ls \<Rightarrow> (c # l) # ls))"

definition output_lines :: "error + string \<Rightarrow> string list" where
  "output_lines r = (case r of Inl e \<Rightarrow> [] | Inr s \<Rightarrow> split_lines s)"

text \<open>
  Collaborators for the concrete inputs: timestamps are written as decimal seconds, the
  relative time is the spec's, and a channel is named after its id.
\<close>

definition parse_seconds :: "string \<Rightarrow> int" where
  "parse_seconds s = fold (\<lambda>c n. 10 * n + (of_char c - 48)) s 0"

definition scenario_collaborators :: collaborators where
  "scenario_collaborators =
     \<lparr>parse_unknown_format_date = parse_seconds,
      get_date_difference_summary = date_difference_summary,
      get_channel_cached = (\<lambda>space_id channel_id api_key url. channel_id)\<rparr>"

text \<open>
  The spec's scenario: one project group Default with environment E1, one environment
  Dev, one project WebApp, no deployments.
\<close>

definition scenario_dashboard :: dashboard where
  "scenario_dashboard =
     \<lparr>Environments = Some [\<lparr>env_Id = ''E1'', env_Name = ''Dev''\<rparr>],
      ProjectGroups = Some [\<lparr>pg_Id = ''PG1'', pg_Name = ''Default'',
                              pg_EnvironmentIds = [''E1'']\<rparr>],
      Projects = Some [\<lparr>proj_Id = ''P1'', proj_Name = ''WebApp'',
                         proj_ProjectGroupId = ''PG1''\<rparr>],
      Items = Some [],
      Releases = None, Tenants = None, RunbookRuns = None\<rparr>"

text \<open>A project progression with one environment and two releases, neither deployed.\<close>

definition two_release_dashboard :: dashboard where
  "two_release_dashboard =
     \<lparr>Environments = Some [\<lparr>env_Id = ''E1'', env_Name = ''Dev''\<rparr>],
      ProjectGroups = None, Projects = None, Items = None,
      Releases = Some [\<lparr>rel_Release_Id = ''R1'', rel_Deployments = []\<rparr>,
                       \<lparr>rel_Release_Id = ''R2'', rel_Deployments = []\<rparr>],
      Tenants = None, RunbookRuns = None\<rparr>"


text \<open>
  A tenant without id, a tenant whose id is the empty string, and an untenanted deployment
  to Dev.
\<close>

definition null_tenant :: tenant where
  "null_tenant = \<lparr>ten_Id = None, ten_Name = ''Untenanted'', ten_ProjectEnvironments = []\<rparr>"

definition empty_id_tenant :: tenant where
  "empty_id_tenant = \<lparr>ten_Id = Some [], ten_Name = ''Blank'', ten_ProjectEnvironments = []\<rparr>"

definition untenanted_deployment :: deployment where
  "untenanted_deployment =
     \<lparr>dep_ProjectId = ''P1'', dep_EnvironmentId = ''E1'', dep_TenantId = None,
      dep_ReleaseId = ''R1'', dep_ReleaseVersion = ''1.0.0'', dep_DeploymentId = ''D1'',
      dep_ChannelId = ''C1'', dep_Created = ''0'', dep_State = ''Success'',
      dep_HasWarningsOrErrors = False\<rparr>"

text \<open>
  A tenant view input: the snapshot has the environment Dev (id E1) only, and an
  untenanted deployment to it.
\<close>

definition tenant_view_dashboard :: dashboard where
  "tenant_view_dashboard =
     \<lparr>Environments = Some [\<lparr>env_Id = ''E1'', env_Name = ''Dev''\<rparr>],
      ProjectGroups = None, Projects = None,
      Items = Some [untenanted_deployment],
      Releases = None,
      Tenants = Some [null_tenant],
      RunbookRuns = None\<rparr>"

text \<open>Runbook runs in two environments: two untenanted runs and one of tenant T1.\<close>

definition runbook_runs_example :: "runbook_run list dict" where
  "runbook_runs_example =
     [(''E1'', [\<lparr>run_TenantId = None, run_Created = ''0'', run_State = ''Success'',
                  run_HasWarningsOrErrors = False\<rparr>,
               \<lparr>run_TenantId = Some ''T1'', run_Created = ''0'', run_State = ''Failed'',
                  run_HasWarningsOrErrors = False\<rparr>,
               \<lparr>run_TenantId = None, run_Created = ''60'', run_State = ''Success'',
                  run_HasWarningsOrErrors = True\<rparr>]),
      (''E2'', [])]"

definition runbook_dashboard :: dashboard where
  "runbook_dashboard =
     \<lparr>Environments = Some [\<lparr>env_Id = ''E1'', env_Name = ''Dev''\<rparr>,
                           \<lparr>env_Id = ''E2'', env_Name = ''Prod''\<rparr>],
      ProjectGroups = None, Projects = None, Items = None, Releases = None, Tenants = None,
      RunbookRuns = Some runbook_runs_example\<rparr>"

text \<open>
  A project progression with the environments Dev and Prod and two releases: release R2
  is deployed to Dev, release R1 to Prod.
\<close>

definition dev_deployment :: deployment where
  "dev_deployment =
     \<lparr>dep_ProjectId = ''P1'', dep_EnvironmentId = ''E1'', dep_TenantId = None,
      dep_ReleaseId = ''R2'', dep_ReleaseVersion = ''1.1.0'', dep_DeploymentId = ''D2'',
      dep_ChannelId = ''C1'', dep_Created = ''3600'', dep_State = ''Success'',
      dep_HasWarningsOrErrors = False\<rparr>"

definition prod_deployment :: deployment where
  "prod_deployment =
     \<lparr>dep_ProjectId = ''P1'', dep_EnvironmentId = ''E2'', dep_TenantId = None,
      dep_ReleaseId = ''R1'', dep_ReleaseVersion = ''1.0.0'', dep_DeploymentId = ''D1'',
      dep_ChannelId = ''C1'', dep_Created = ''0'', dep_State = ''Success'',
      dep_HasWarningsOrErrors = False\<rparr>"

definition progression_dashboard :: dashboard where
  "progression_dashboard =
     \<lparr>Environments = Some [\<lparr>env_Id = ''E1'', env_Name = ''Dev''\<rparr>,
                           \<lparr>env_Id = ''E2'', env_Name = ''Prod''\<rparr>],
      ProjectGroups = None, Projects = None, Items = None,
      Releases = Some [\<lparr>rel_Release_Id = ''R2'',
                         rel_Deployments = [(''E1'', [dev_deployment])]\<rparr>,
                       \<lparr>rel_Release_Id = ''R1'',
                         rel_Deployments = [(''E2'', [prod_deployment])]\<rparr>],
      Tenants = None, RunbookRuns = None\<rparr>"

section \<open>Clock readings and timestamps\<close>

text \<open>
  The timestamps of an input: the creation times of the deployments of the dashboard's
  items and releases, of its runbook runs, and of the workflow statuses.
\<close>

definition snapshot_timestamps ::
  "collaborators \<Rightarrow> dashboard \<Rightarrow> github_actions_status list option \<Rightarrow> int list" where
  "snapshot_timestamps X dashboard statuses =
     map (\<lambda>d. parse_unknown_format_date X (dep_Created d)) (or_empty (Items dashboard))
     @ map (\<lambda>d. parse_unknown_format_date X (dep_Created d))
         (concat (map (\<lambda>r. concat (map snd (rel_Deployments r)))
                    (or_empty (Releases dashboard))))
     @ map (\<lambda>r. parse_unknown_format_date X (run_Created r))
         (concat (map snd (or_empty (RunbookRuns dashboard))))
     @ concat (map (\<lambda>s. case gas_CreatedAt s of None \<Rightarrow> [] | Some t \<Rightarrow> [t])
                 (or_empty statuses))"

text \<open>
  Two clock readings give the same relative-time phrase for each of the timestamps.
\<close>

definition same_phrases :: "collaborators \<Rightarrow> int list \<Rightarrow> int \<Rightarrow> int \<Rightarrow> bool" where
  "same_phrases X ts now1 now2 =
     (\<forall>t \<in> set ts. get_date_difference_summary X (now1 - t)
                     = get_date_difference_summary X (now2 - t))"

text \<open>
  A project dashboard input with a workflow status created at time 0, and three clocks.
  Two agree on the first reading: one stands still, the other has moved on by a second
  when it is read again. The third stands still a minute earlier.
\<close>

definition status_example :: "github_actions_status list" where
  "status_example =
     [\<lparr>gas_ProjectId = ''P1'', gas_Status = Some ''completed'',
       gas_Conclusion = Some ''success'', gas_Name = Some ''build'',
       gas_ShortSha = Some ''abc1234'', gas_Url = Some ''https://github.com/o/r/runs/1'',
       gas_CreatedAt = Some 0\<rparr>]"

definition steady_clock :: clock where
  "steady_clock n = 3599"

definition ticking_clock :: clock where
  "ticking_clock n = (if n = 0 then 3599 else 3600)"

definition earlier_clock :: clock where
  "earlier_clock n = 3540"

section \<open>What the spec says, as functions\<close>

text \<open>The distinct elements of a list, each at the place where it is first seen.\<close>

fun first_seen :: "'a list \<Rightarrow> 'a list" where
  "first_seen [] = []"
| "first_seen (x # xs) = x # first_seen (filter (\<lambda>y. y \<noteq> x) xs)"

text \<open>The body row of one runbook run: the tenant's display name, then icon and age.\<close>

definition runbook_row :: "collaborators \<Rightarrow> int \<Rightarrow> (string \<Rightarrow> string) \<Rightarrow> runbook_run \<Rightarrow> string" where
  "runbook_row X dt get_tenant run =
     ''| '' @ join '' | '' (build_runbook_run_columns X run dt get_tenant) @ '' |\<newline>''"

section \<open>Keys of the snapshot\<close>

text \<open>The key \<open>k\<close> is one of the seven top-level keys and the snapshot does not have it.\<close>

definition missing_key :: "dashboard \<Rightarrow> string \<Rightarrow> bool" where
  "missing_key dashboard k =
     (k = ''Environments'' \<and> Environments dashboard = None
      \<or> k = ''ProjectGroups'' \<and> ProjectGroups dashboard = None
      \<or> k = ''Projects'' \<and> Projects dashboard = None
      \<or> k = ''Items'' \<and> Items dashboard = None
      \<or> k = ''Releases'' \<and> Releases dashboard = None
      \<or> k = ''Tenants'' \<and> Tenants dashboard = None
      \<or> k = ''RunbookRuns'' \<and> RunbookRuns dashboard = None)"

text \<open>A call returned a value; every \<open>KeyError\<close> of a call names a missing key.\<close>

definition returns :: "error + 'a \<Rightarrow> bool" where
  "returns r = (\<exists>x. r = Inr x)"

definition key_errors_sound :: "dashboard \<Rightarrow> error + 'a \<Rightarrow> bool" where
  "key_errors_sound dashboard r = (\<forall>k. r = Inl (KeyError k) \<longrightarrow> missing_key dashboard k)"



section \<open>Properties of the status icons\<close>

text \<open>
  C6. \<open>get_state_icon\<close> is a total function of the state and the warnings flag. It maps
  Executing to the blue circle, Success to the yellow circle when there are warnings and
  to the green one otherwise (the warnings are looked at before plain Success is
  answered), Failed, TimedOut and Cancelling to the red circle, Canceled to the white
  circle, Queued to the purple circle, and every other state to the white circle.
\<close>

theorem get_state_icon_mapping:
  "get_state_icon ''Executing'' w = glyph_blue
   \<and> get_state_icon ''Success'' True = glyph_yellow
   \<and> get_state_icon ''Success'' False = glyph_green
   \<and> get_state_icon ''Failed'' w = glyph_red
   \<and> get_state_icon ''Canceled'' w = glyph_white
   \<and> get_state_icon ''TimedOut'' w = glyph_red
   \<and> get_state_icon ''Cancelling'' w = glyph_red
   \<and> get_state_icon ''Queued'' w = glyph_purple
   \<and> (state \<notin> {''Executing'', ''Success'', ''Failed'', ''Canceled'', ''TimedOut'',
                 ''Cancelling'', ''Queued''}
        \<longrightarrow> get_state_icon state w = glyph_white)"
  by (simp add: get_state_icon_def)

theorem get_state_icon_mapping_witness:
  "''Paused'' \<notin> {''Executing'', ''Success'', ''Failed'', ''Canceled'', ''TimedOut'',
                  ''Cancelling'', ''Queued''}
   \<and> get_state_icon ''Paused'' True = glyph_white"
  using get_state_icon_mapping [where state = "''Paused''" and w = True] by simp

text \<open>
  C7. \<open>get_github_state_icon\<close> is a total function of status and conclusion (either may
  be absent). Status \<open>in_progress\<close> gives the blue circle and \<open>queued\<close> the purple one,
  whatever the conclusion. For any other status the conclusion decides: \<open>success\<close> green,
  \<open>failure\<close> or \<open>timed_out\<close> red, \<open>action_required\<close> orange, \<open>cancelled\<close>, \<open>neutral\<close> or
  \<open>skipped\<close> white, anything else white. In particular (completed, failure) is red.
\<close>

theorem get_github_state_icon_mapping:
  "get_github_state_icon (Some ''in_progress'') conclusion = glyph_blue
   \<and> get_github_state_icon (Some ''queued'') conclusion = glyph_purple
   \<and> (status \<noteq> Some ''in_progress'' \<and> status \<noteq> Some ''queued'' \<longrightarrow>
        get_github_state_icon status conclusion =
          (if conclusion = Some ''success'' then glyph_green
           else if conclusion \<in> {Some ''failure'', Some ''timed_out''} then glyph_red
           else if conclusion = Some ''action_required'' then glyph_orange
           else if conclusion \<in> {Some ''cancelled'', Some ''neutral'', Some ''skipped''}
             then glyph_white
           else glyph_white))
   \<and> get_github_state_icon (Some ''completed'') (Some ''failure'') = glyph_red"
  by (simp add: get_github_state_icon_def)

theorem get_github_state_icon_mapping_witness:
  "Some ''completed'' \<noteq> Some ''in_progress'' \<and> Some ''completed'' \<noteq> Some ''queued''
   \<and> get_github_state_icon (Some ''completed'') (Some ''action_required'') = glyph_orange
   \<and> get_github_state_icon (Some ''completed'') None = glyph_white"
  using get_github_state_icon_mapping
          [where status = "Some ''completed''" and conclusion = "Some ''action_required''"]
        get_github_state_icon_mapping
          [where status = "Some ''completed''" and conclusion = None]
  by simp

section \<open>Helper facts\<close>

lemma rbind_Inr [simp]: "rbind (Inr x) f = f x"
  by (simp add: rbind_def)

lemma rbind_Inl [simp]: "rbind (Inl e) f = Inl e"
  by (simp add: rbind_def)

lemma rmap_pure: "rmap (\<lambda>x. Inr (g x)) xs = Inr (map g xs)"
  by (induction xs) simp_all

lemma truthy_iff: "truthy v \<longleftrightarrow> (\<exists>s. v = Some s \<and> s \<noteq> [])"
  by (cases v) (simp_all add: truthy_def)

lemma yield_first_filter:
  "yield_first (filter P xs) = (case find P xs of None \<Rightarrow> [] | Some x \<Rightarrow> [x])"
  by (induction xs) simp_all

lemmas render_defs = get_dashboard_response_def dashboard_group_def dashboard_columns_def
  dashboard_project_cells_def dashboard_environment_cell_def dashboard_github_cell_def
  get_env_name_def lookup_key_def build_markdown_table_row_def
  build_markdown_table_header_separator_def or_empty_def

lemmas project_defs = get_project_dashboard_response_def project_dashboard_cells_def
  project_release_cells_def project_message_def build_repo_link_def
  get_project_workflow_status_def build_pr_response_def build_issue_response_def

section \<open>Properties of the tables\<close>

text \<open>
  The space dashboard and the tenant view give every row one cell per header column.
\<close>

lemma rmap_length: "rmap f xs = Inr ys \<Longrightarrow> length ys = length xs"
proof (induction xs arbitrary: ys)
  case Nil
  then show ?case by simp
next
  case (Cons x xs)
  then show ?case
    by (cases "f x"; cases "rmap f xs") auto
qed

lemma dashboard_row_cells:
  assumes "dashboard_columns dashboard github_actions_status project_group = Inr columns"
    and "dashboard_project_cells X now wnow octopus_url space_id dashboard github_actions
           github_actions_status pull_requests issues project_group project = Inr cells"
  shows "length cells = length columns"
proof -
  obtain names where n: "rmap (get_env_name dashboard) (pg_EnvironmentIds project_group) = Inr names"
    and c: "columns = Some (pg_Name project_group)
              # (if or_empty github_actions_status \<noteq> [] then [Some ''GitHub''] else []) @ names"
    using assms(1)
    by (cases "rmap (get_env_name dashboard) (pg_EnvironmentIds project_group)")
      (auto simp: dashboard_columns_def)
  obtain ecells where e: "rmap (dashboard_environment_cell X now octopus_url space_id dashboard
                                  project) (pg_EnvironmentIds project_group) = Inr ecells"
    and d: "cells = [''| '' @ proj_Name project @ '' '']
              @ dashboard_github_cell X wnow github_actions github_actions_status pull_requests
                  issues project @ ecells"
    using assms(2)
    by (cases "rmap (dashboard_environment_cell X now octopus_url space_id dashboard project)
                 (pg_EnvironmentIds project_group)")
      (auto simp: dashboard_project_cells_def)
  have "length (dashboard_github_cell X wnow github_actions github_actions_status pull_requests
                  issues project) = (if or_empty github_actions_status \<noteq> [] then 1 else 0)"
    by (simp add: dashboard_github_cell_def Let_def)
  with c d rmap_length [OF n] rmap_length [OF e] show ?thesis by simp
qed

lemma tenant_row_cells:
  "tenant_columns X now space_id api_key url release_workflow_runs deployment_highlights
     dashboard tenant environments = Inr columns \<Longrightarrow> length columns = length environments"
  by (simp add: tenant_columns_def rmap_length)

text \<open>
  C1. Every data row has one cell per column of its table's header, and a position without
  deployment shows the placeholder. The project dashboard does not keep this: its loops
  run over the environments and, inside, over all releases, and every (environment,
  release) pair appends a cell (one per deployment of the release to the environment, or
  the placeholder) to the one data row. For a project with the environments Dev and Prod,
  release R2 deployed to Dev and release R1 deployed to Prod, the header declares two
  columns and the data row has four cells: the Dev deployment, two placeholders, the Prod
  deployment.
\<close>

theorem project_dashboard_row_cells:
  "project_dashboard_cells X now octopus_url space_id progression_dashboard None None =
     Inr [''| '' @ deployment_link octopus_url space_id dev_deployment @ ''<br/>''
            @ deployment_age X now dev_deployment,
          ''| '' @ glyph_missing @ '' '',
          ''| '' @ glyph_missing @ '' '',
          ''| '' @ deployment_link octopus_url space_id prod_deployment @ ''<br/>''
            @ deployment_age X now prod_deployment]
   \<and> get_project_dashboard_response X clock octopus_url space_id ''Main'' ''WebApp'' ''P1''
       progression_dashboard None None None None None None =
     Inr (''# Main / WebApp\<newline>\<newline>| Dev | Prod |\<newline>|-|-|\<newline>''
          @ ''| '' @ deployment_link octopus_url space_id dev_deployment @ ''<br/>''
            @ deployment_age X (clock 0) dev_deployment
          @ ''| '' @ glyph_missing @ '' '' @ ''| '' @ glyph_missing @ '' ''
          @ ''| '' @ deployment_link octopus_url space_id prod_deployment @ ''<br/>''
            @ deployment_age X (clock 0) prod_deployment
          @ ''|  '')"
  by (simp add: render_defs project_defs progression_dashboard_def matching_releases_def
        highlight_lines_def)

text \<open>
  C2, as amended. For the dashboard of the scenario (project group Default with
  environment E1, environment Dev, project WebApp, no deployment) and no enrichment,
  \<open>get_dashboard_response\<close> returns the title, the header row \<^verbatim>\<open>| Default | Dev |\<close>, the
  separator \<^verbatim>\<open>|-|-|\<close> (one dash between each pair of the three pipes) and the body row
  \<^verbatim>\<open>| WebApp | P |\<close> where P is the placeholder glyph, followed by a space and the closing
  pipe.
\<close>

theorem scenario_table:
  "get_dashboard_response X clock octopus_url space_id space_name scenario_dashboard
     None None None None =
   Inr (''# '' @ space_name @ ''\<newline>\<newline>| Default | Dev |\<newline>|-|-|\<newline>| WebApp | ''
          @ glyph_missing @ '' |\<newline>\<newline>'')"
  by (simp add: render_defs scenario_dashboard_def)

text \<open>
  C2, as stated, fails: the output for the scenario has no line \<^verbatim>\<open>|--|--|\<close> and no line
  that ends the body row directly after the glyph.
\<close>

theorem scenario_table_counterexample:
  "''|--|--|''
     \<notin> set (output_lines (get_dashboard_response scenario_collaborators (\<lambda>n. 0)
                ''https://octopus'' ''Spaces-1'' ''Main'' scenario_dashboard None None None None))
   \<and> ''| WebApp | '' @ glyph_missing @ ''|''
       \<notin> set (output_lines (get_dashboard_response scenario_collaborators (\<lambda>n. 0)
                  ''https://octopus'' ''Spaces-1'' ''Main'' scenario_dashboard None None None
                  None))"
  by (simp add: render_defs scenario_dashboard_def output_lines_def glyph_missing_def)

section \<open>Properties of the matching\<close>

text \<open>
  C4. In the tenant progression view a deployment without tenant id is selected for a
  tenant's cell only if the tenant has no id either, and never for a tenant whose id is
  the empty string; and a tenant without id does get a deployment without tenant id in the
  column of an environment to which one was deployed.
\<close>

theorem untenanted_matches_null_tenant:
  assumes "dep_TenantId d = None"
  shows "(tenant_deployment tenant environment items = Some d \<longrightarrow> ten_Id tenant = None)
     \<and> (ten_Id tenant = Some [] \<longrightarrow> tenant_deployment tenant environment items \<noteq> Some d)
     \<and> (ten_Id tenant = None \<and> d \<in> set items \<and> dep_EnvironmentId d = env_Id environment \<longrightarrow>
          (\<exists>d'. tenant_deployment tenant environment items = Some d' \<and> dep_TenantId d' = None))"
proof (intro conjI impI)
  assume "tenant_deployment tenant environment items = Some d"
  then show "ten_Id tenant = None"
    using assms by (auto simp: tenant_deployment_def find_Some_iff)
next
  assume "ten_Id tenant = Some []"
  then show "tenant_deployment tenant environment items \<noteq> Some d"
    using assms by (auto simp: tenant_deployment_def find_Some_iff)
next
  assume h: "ten_Id tenant = None \<and> d \<in> set items \<and> dep_EnvironmentId d = env_Id environment"
  then have "tenant_deployment tenant environment items \<noteq> None"
    using assms by (auto simp: tenant_deployment_def find_None_iff)
  then obtain d' where d': "tenant_deployment tenant environment items = Some d'"
    by auto
  then have "dep_TenantId d' = None"
    using h by (auto simp: tenant_deployment_def find_Some_iff)
  with d' show "\<exists>d'. tenant_deployment tenant environment items = Some d' \<and> dep_TenantId d' = None"
    by simp
qed

theorem untenanted_matches_null_tenant_witness:
  "dep_TenantId untenanted_deployment = None
   \<and> tenant_deployment null_tenant \<lparr>env_Id = ''E1'', env_Name = ''Dev''\<rparr> [untenanted_deployment]
       = Some untenanted_deployment
   \<and> tenant_deployment empty_id_tenant \<lparr>env_Id = ''E1'', env_Name = ''Dev''\<rparr>
       [untenanted_deployment] \<noteq> Some untenanted_deployment"
  using untenanted_matches_null_tenant [of untenanted_deployment null_tenant
          "\<lparr>env_Id = ''E1'', env_Name = ''Dev''\<rparr>" "[untenanted_deployment]"]
        untenanted_matches_null_tenant [of untenanted_deployment empty_id_tenant
          "\<lparr>env_Id = ''E1'', env_Name = ''Dev''\<rparr>" "[untenanted_deployment]"]
  by (simp add: untenanted_deployment_def null_tenant_def empty_id_tenant_def
        tenant_deployment_def)

text \<open>
  C5. The workflow runs attached to a deployment cell (in the project dashboard for the
  release's id, in the tenant view for the deployment's release id) are: the first run of
  the input list whose release id is that id and whose short sha and url are both present
  and non-empty, and nothing else; none when no run qualifies. So a cell has at most one
  workflow-run line.
\<close>

theorem first_matching_workflow_run:
  "matching_releases release_id release_workflow_runs =
     (case find (\<lambda>x. wr_ReleaseId x = release_id
                      \<and> (\<exists>sha. wr_ShortSha x = Some sha \<and> sha \<noteq> [])
                      \<and> (\<exists>u. wr_Url x = Some u \<and> u \<noteq> []))
             (or_empty release_workflow_runs) of
        None \<Rightarrow> []
      | Some x \<Rightarrow> [x])
   \<and> length (map workflow_run_line (matching_releases release_id release_workflow_runs)) \<le> 1"
proof -
  have eq: "workflow_run_matches release_id =
     (\<lambda>x. wr_ReleaseId x = release_id
                      \<and> (\<exists>sha. wr_ShortSha x = Some sha \<and> sha \<noteq> [])
                      \<and> (\<exists>u. wr_Url x = Some u \<and> u \<noteq> []))"
    by (rule ext) (simp add: workflow_run_matches_def truthy_iff)
  have 1: "matching_releases release_id release_workflow_runs =
     (case find (workflow_run_matches release_id) (or_empty release_workflow_runs) of
        None \<Rightarrow> [] | Some x \<Rightarrow> [x])"
    by (simp add: matching_releases_def yield_first_filter)
  then have 2: "length (matching_releases release_id release_workflow_runs) \<le> 1"
    by (simp split: option.splits)
  from 1 2 show ?thesis unfolding eq by simp
qed

section \<open>Unknown environments in the tenant view\<close>

lemma details_eq:
  assumes "Environments dashboard = Some envs"
  shows "get_tenant_environment_details ids dashboard =
     Inr (concat (map (\<lambda>i. case find (\<lambda>e. env_Id e = i) envs of
                               None \<Rightarrow> []
                             | Some e \<Rightarrow> if env_Name e \<noteq> [] then [\<lparr>env_Id = i, env_Name = env_Name e\<rparr>]
                                         else []) ids))"
proof -
  have "(\<lambda>environment. rbind (get_env_name dashboard environment) (\<lambda>environment_name.
                      Inr (case environment_name of
                             None \<Rightarrow> []
                           | Some name \<Rightarrow>
                               if name \<noteq> [] then [\<lparr>env_Id = environment, env_Name = name\<rparr>]
                               else [])))
      = (\<lambda>i. Inr (case find (\<lambda>e. env_Id e = i) envs of
                               None \<Rightarrow> []
                             | Some e \<Rightarrow> if env_Name e \<noteq> [] then [\<lparr>env_Id = i, env_Name = env_Name e\<rparr>]
                                         else []))"
    using assms by (auto simp: get_env_name_def lookup_key_def fun_eq_iff split: option.splits)
  then show ?thesis
    by (simp add: get_tenant_environment_details_def rmap_pure)
qed

lemma concat_map_filter_nil:
  "(\<And>x. x \<in> set xs \<Longrightarrow> \<not> P x \<Longrightarrow> f x = []) \<Longrightarrow> concat (map f (filter P xs)) = concat (map f xs)"
  by (induction xs) auto

lemma details_known:
  assumes "Environments dashboard = Some envs"
  shows "get_tenant_environment_details (filter (\<lambda>i. i \<in> env_Id ` set envs) ids) dashboard =
         get_tenant_environment_details ids dashboard"
proof -
  have "\<And>i. i \<notin> env_Id ` set envs \<Longrightarrow> find (\<lambda>e. env_Id e = i) envs = None"
    by (auto simp: find_None_iff)
  then show ?thesis
    unfolding details_eq [OF assms]
    by (simp add: concat_map_filter_nil)
qed

text \<open>
  C10. In the tenant progression view an environment id of the list derived for a tenant
  that has no environment record in the snapshot is left out of the tenant's table: the
  table is the one rendered for the list without such ids (no header cell and no
  placeholder cell stand for them), and when no id of the list is known the table is the
  text "No deployments".
\<close>

theorem unknown_environment_omitted:
  assumes "Environments dashboard = Some envs"
  shows "tenant_table X now space_id api_key url release_workflow_runs deployment_highlights
           dashboard tenant environments_ids =
         tenant_table X now space_id api_key url release_workflow_runs deployment_highlights
           dashboard tenant (filter (\<lambda>i. i \<in> env_Id ` set envs) environments_ids)
     \<and> (\<exists>environments. get_tenant_environment_details environments_ids dashboard = Inr environments
           \<and> (\<forall>i \<in> set environments_ids. i \<notin> env_Id ` set envs \<longrightarrow> i \<notin> env_Id ` set environments))
     \<and> ((\<forall>i \<in> set environments_ids. i \<notin> env_Id ` set envs) \<longrightarrow>
          tenant_table X now space_id api_key url release_workflow_runs deployment_highlights
            dashboard tenant environments_ids = Inr ''\<newline>No deployments\<newline>\<newline>'')"
proof (intro conjI impI)
  show "tenant_table X now space_id api_key url release_workflow_runs deployment_highlights
           dashboard tenant environments_ids =
         tenant_table X now space_id api_key url release_workflow_runs deployment_highlights
           dashboard tenant (filter (\<lambda>i. i \<in> env_Id ` set envs) environments_ids)"
    by (simp add: tenant_table_def details_known [OF assms])
next
  show "\<exists>environments. get_tenant_environment_details environments_ids dashboard = Inr environments
           \<and> (\<forall>i \<in> set environments_ids. i \<notin> env_Id ` set envs \<longrightarrow> i \<notin> env_Id ` set environments)"
    unfolding details_eq [OF assms]
    by (auto split: option.splits if_splits simp: find_Some_iff find_Some_iff2)
next
  assume "\<forall>i \<in> set environments_ids. i \<notin> env_Id ` set envs"
  then have "filter (\<lambda>i. i \<in> env_Id ` set envs) environments_ids = []"
    by (simp add: filter_empty_conv)
  then have "get_tenant_environment_details environments_ids dashboard = Inr []"
    using details_known [OF assms, of environments_ids] details_eq [OF assms, of "[]"] by simp
  then show "tenant_table X now space_id api_key url release_workflow_runs deployment_highlights
            dashboard tenant environments_ids = Inr ''\<newline>No deployments\<newline>\<newline>''"
    by (simp add: tenant_table_def tenant_columns_def build_markdown_table_row_def
          build_markdown_table_header_separator_def)
qed

theorem unknown_environment_omitted_witness:
  "Environments tenant_view_dashboard = Some [\<lparr>env_Id = ''E1'', env_Name = ''Dev''\<rparr>]
   \<and> tenant_table scenario_collaborators 3600 ''Spaces-1'' ''key'' ''https://octopus'' None None
       tenant_view_dashboard null_tenant [''E1'', ''E9'']
     = tenant_table scenario_collaborators 3600 ''Spaces-1'' ''key'' ''https://octopus'' None None
         tenant_view_dashboard null_tenant [''E1'']
   \<and> tenant_table scenario_collaborators 3600 ''Spaces-1'' ''key'' ''https://octopus'' None None
       tenant_view_dashboard null_tenant [''E9'']
     = Inr ''\<newline>No deployments\<newline>\<newline>''"
proof -
  have E: "Environments tenant_view_dashboard = Some [\<lparr>env_Id = ''E1'', env_Name = ''Dev''\<rparr>]"
    by (simp add: tenant_view_dashboard_def)
  have 1: "tenant_table scenario_collaborators 3600 ''Spaces-1'' ''key'' ''https://octopus'' None
       None tenant_view_dashboard null_tenant [''E1'', ''E9'']
     = tenant_table scenario_collaborators 3600 ''Spaces-1'' ''key'' ''https://octopus'' None None
         tenant_view_dashboard null_tenant [''E1'']"
    using unknown_environment_omitted [OF E, where X = scenario_collaborators and now = 3600
            and space_id = "''Spaces-1''" and api_key = "''key''" and url = "''https://octopus''"
            and release_workflow_runs = None and deployment_highlights = None
            and tenant = null_tenant and environments_ids = "[''E1'', ''E9'']",
            THEN conjunct1]
    by simp
  have 2: "tenant_table scenario_collaborators 3600 ''Spaces-1'' ''key'' ''https://octopus'' None
       None tenant_view_dashboard null_tenant [''E9'']
     = Inr ''\<newline>No deployments\<newline>\<newline>''"
    using unknown_environment_omitted [OF E, where X = scenario_collaborators and now = 3600
            and space_id = "''Spaces-1''" and api_key = "''key''" and url = "''https://octopus''"
            and release_workflow_runs = None and deployment_highlights = None
            and tenant = null_tenant and environments_ids = "[''E9'']",
            THEN conjunct2, THEN conjunct2]
    by simp
  from E 1 2 show ?thesis by simp
qed

section \<open>The rows of the runbook dashboard\<close>

lemma fold_add_tenant:
  "fold add_tenant runs tenants =
     tenants @ first_seen (filter (\<lambda>t. t \<notin> set tenants) (map run_tenant runs))"
proof (induction runs arbitrary: tenants)
  case Nil
  show ?case by simp
next
  case (Cons r rs)
  show ?case
  proof (cases "run_tenant r \<in> set tenants")
    case True
    then have "add_tenant r tenants = tenants"
      by (simp add: add_tenant_def)
    with True show ?thesis by (simp add: Cons.IH)
  next
    case False
    have "filter (\<lambda>t. t \<noteq> run_tenant r \<and> t \<notin> set tenants) (map run_tenant rs)
        = filter (\<lambda>y. y \<noteq> run_tenant r) (filter (\<lambda>t. t \<notin> set tenants) (map run_tenant rs))"
      by (simp add: conj_commute)
    moreover from False have "add_tenant r tenants = tenants @ [run_tenant r]"
      by (simp add: add_tenant_def)
    ultimately show ?thesis using False by (simp add: Cons.IH)
  qed
qed

lemma dict_item_distinct:
  "distinct (map fst d) \<Longrightarrow> (k, v) \<in> set d \<Longrightarrow> dict_item d k = Inr v"
  by (simp add: dict_item_def lookup_key_def)

lemma get_tenants_loop_fold:
  assumes "distinct (map fst d)"
  shows "set es \<subseteq> set d \<Longrightarrow>
     get_tenants_loop d (map fst es) tenants = Inr (fold add_tenant (concat (map snd es)) tenants)"
proof (induction es arbitrary: tenants)
  case Nil
  show ?case by simp
next
  case (Cons e es)
  obtain k v where e: "e = (k, v)" by (cases e)
  with Cons.prems have "dict_item d k = Inr v"
    using assms by (simp add: dict_item_distinct)
  with Cons e show ?case by simp
qed

lemma runbook_rows_eq:
  assumes "distinct (map fst d)" and "(environment, runs) \<in> set d"
  shows "runbook_rows X dt get_tenant d tenant environment =
     Inr (map (runbook_row X dt get_tenant) (filter (run_matches tenant) runs))"
proof -
  have "(\<lambda>run. build_markdown_table_row (map Some (build_runbook_run_columns X run dt get_tenant)))
      = (\<lambda>run. Inr (runbook_row X dt get_tenant run))"
    by (rule ext)
      (simp add: build_markdown_table_row_def runbook_row_def build_runbook_run_columns_def)
  then show ?thesis
    using assms by (simp add: runbook_rows_def dict_item_distinct rmap_pure)
qed

lemma rmap_cong: "(\<And>x. x \<in> set xs \<Longrightarrow> f x = g x) \<Longrightarrow> rmap f xs = rmap g xs"
  by (induction xs) simp_all

lemma runbook_rows_all:
  assumes "distinct (map fst d)" and "set es \<subseteq> set d"
  shows "rmap (runbook_rows X dt get_tenant d tenant) (map fst es) =
     Inr (map (\<lambda>(environment, runs).
                 map (runbook_row X dt get_tenant) (filter (run_matches tenant) runs)) es)"
  using assms(2)
proof (induction es)
  case Nil
  show ?case by simp
next
  case (Cons e es)
  obtain k v where e: "e = (k, v)" by (cases e)
  with Cons show ?case
    using runbook_rows_eq [OF assms(1), of k v] by simp
qed

lemma runbook_body_eq:
  assumes "distinct (map fst d)"
  shows "runbook_body X dt get_tenant d tenants (dict_keys d) =
     Inr (concat (map (\<lambda>tenant.
            concat (map (\<lambda>(environment, runs).
                           map (runbook_row X dt get_tenant) (filter (run_matches tenant) runs))
                      d)) tenants))"
proof -
  have "(\<lambda>tenant. rbind (rmap (runbook_rows X dt get_tenant d tenant) (dict_keys d))
                    (\<lambda>rows. Inr (concat rows)))
      = (\<lambda>tenant. Inr (concat (map (\<lambda>(environment, runs).
                           map (runbook_row X dt get_tenant) (filter (run_matches tenant) runs))
                      d)))"
    by (rule ext) (simp add: dict_keys_def runbook_rows_all [OF assms])
  then show ?thesis
    by (simp add: runbook_body_def rmap_pure)
qed

lemma get_tenants_eq:
  assumes "RunbookRuns dashboard = Some runbook_runs" and "distinct (dict_keys runbook_runs)"
  shows "get_tenants dashboard =
           Inr (first_seen (map run_tenant (concat (map snd runbook_runs))))"
proof -
  have d: "distinct (map fst runbook_runs)"
    using assms(2) by (simp add: dict_keys_def)
  show ?thesis
    using assms(1) get_tenants_loop_fold [OF d, of runbook_runs "[]"]
    by (simp add: get_tenants_def lookup_key_def dict_keys_def fold_add_tenant)
qed

lemma runbook_response_eq:
  assumes "RunbookRuns dashboard = Some runbook_runs" and "distinct (dict_keys runbook_runs)"
  shows "get_runbook_dashboard_response X clock project runbook dashboard get_tenant =
         rbind (rmap (get_env_name dashboard) (dict_keys runbook_runs)) (\<lambda>environment_names.
         rbind (build_markdown_table_row (Some [] # environment_names)) (\<lambda>header.
           Inr (proj_Name project @ '' / '' @ rb_Name runbook @ ''\<newline>\<newline>'' @ header
                @ build_markdown_table_header_separator (Suc (length environment_names))
                @ concat (concat (map (\<lambda>tenant.
                    concat (map (\<lambda>(environment, runs).
                                   map (runbook_row X (clock 0) get_tenant)
                                     (filter (run_matches tenant) runs))
                              runbook_runs))
                    (first_seen (map run_tenant (concat (map snd runbook_runs)))))))))"
proof -
  have d: "distinct (map fst runbook_runs)"
    using assms(2) by (simp add: dict_keys_def)
  note t = get_tenants_eq [OF assms]
  show ?thesis
    using assms(1)
    by (simp add: get_runbook_dashboard_response_def t lookup_key_def runbook_body_eq [OF d])
qed

text \<open>
  C8. For a snapshot whose RunbookRuns dict is given (a dict has distinct keys):
  \<open>get_tenants\<close> returns the tenant ids of all runs of all environments, a run without
  tenant id counted as "Untenanted", each id once and in the order in which it is first
  seen; the runbook dashboard is the title, the header and separator, and then, tenant
  after tenant in that order and for each tenant environment after environment in the
  dict's order, one row for every run of the environment that matches the tenant; so a
  tenant and environment with k matching runs give k rows. A run matches a tenant when its tenant id is the tenant, or when it has no
  tenant id and the tenant is the sentinel.
\<close>

theorem runbook_one_row_per_run:
  assumes "RunbookRuns dashboard = Some runbook_runs" and "distinct (dict_keys runbook_runs)"
  shows "get_tenants dashboard =
           Inr (first_seen (map run_tenant (concat (map snd runbook_runs))))
     \<and> get_runbook_dashboard_response X clock project runbook dashboard get_tenant =
         rbind (rmap (get_env_name dashboard) (dict_keys runbook_runs)) (\<lambda>environment_names.
         rbind (build_markdown_table_row (Some [] # environment_names)) (\<lambda>header.
           Inr (proj_Name project @ '' / '' @ rb_Name runbook @ ''\<newline>\<newline>'' @ header
                @ build_markdown_table_header_separator (Suc (length environment_names))
                @ concat (concat (map (\<lambda>tenant.
                    concat (map (\<lambda>(environment, runs).
                                   map (runbook_row X (clock 0) get_tenant)
                                     (filter (run_matches tenant) runs))
                              runbook_runs))
                    (first_seen (map run_tenant (concat (map snd runbook_runs)))))))))
     \<and> (\<forall>(environment, runs) \<in> set runbook_runs.
          \<exists>rows. runbook_rows X (clock 0) get_tenant runbook_runs tenant environment = Inr rows
            \<and> length rows = length (filter (run_matches tenant) runs))
     \<and> (\<forall>run. run_matches tenant run \<longleftrightarrow>
          run_TenantId run = Some tenant
          \<or> (run_TenantId run = None \<or> run_TenantId run = Some []) \<and> tenant = ''Untenanted'')"
proof (intro conjI)
  have d: "distinct (map fst runbook_runs)"
    using assms(2) by (simp add: dict_keys_def)
  show "get_tenants dashboard = Inr (first_seen (map run_tenant (concat (map snd runbook_runs))))"
    by (rule get_tenants_eq [OF assms])
  show "get_runbook_dashboard_response X clock project runbook dashboard get_tenant =
         rbind (rmap (get_env_name dashboard) (dict_keys runbook_runs)) (\<lambda>environment_names.
         rbind (build_markdown_table_row (Some [] # environment_names)) (\<lambda>header.
           Inr (proj_Name project @ '' / '' @ rb_Name runbook @ ''\<newline>\<newline>'' @ header
                @ build_markdown_table_header_separator (Suc (length environment_names))
                @ concat (concat (map (\<lambda>tenant.
                    concat (map (\<lambda>(environment, runs).
                                   map (runbook_row X (clock 0) get_tenant)
                                     (filter (run_matches tenant) runs))
                              runbook_runs))
                    (first_seen (map run_tenant (concat (map snd runbook_runs)))))))))"
    by (rule runbook_response_eq [OF assms])
  show "\<forall>(environment, runs) \<in> set runbook_runs.
          \<exists>rows. runbook_rows X (clock 0) get_tenant runbook_runs tenant environment = Inr rows
            \<and> length rows = length (filter (run_matches tenant) runs)"
    using runbook_rows_eq [OF d] by auto
  show "\<forall>run. run_matches tenant run \<longleftrightarrow>
          run_TenantId run = Some tenant
          \<or> (run_TenantId run = None \<or> run_TenantId run = Some []) \<and> tenant = ''Untenanted''"
  proof
    fix run
    show "run_matches tenant run \<longleftrightarrow>
          run_TenantId run = Some tenant
          \<or> (run_TenantId run = None \<or> run_TenantId run = Some []) \<and> tenant = ''Untenanted''"
      by (cases "run_TenantId run") (auto simp: run_matches_def truthy_def)
  qed
qed

theorem runbook_one_row_per_run_witness:
  "RunbookRuns runbook_dashboard = Some runbook_runs_example
   \<and> distinct (dict_keys runbook_runs_example)
   \<and> get_tenants runbook_dashboard = Inr [''Untenanted'', ''T1'']
   \<and> map_sum id length
        (runbook_rows scenario_collaborators 3600 (\<lambda>t. t) runbook_runs_example ''Untenanted'' ''E1'')
       = Inr 2"
proof -
  have a: "RunbookRuns runbook_dashboard = Some runbook_runs_example"
    by (simp add: runbook_dashboard_def)
  have b: "distinct (dict_keys runbook_runs_example)"
    by (simp add: runbook_runs_example_def dict_keys_def)
  note t = runbook_one_row_per_run [OF a b, where X = scenario_collaborators
             and clock = "\<lambda>n. 3600" and get_tenant = "\<lambda>t. t" and tenant = "''Untenanted''"]
  have 1: "get_tenants runbook_dashboard = Inr [''Untenanted'', ''T1'']"
    using t [THEN conjunct1] by (simp add: runbook_runs_example_def run_tenant_def)
  have 2: "map_sum id length
        (runbook_rows scenario_collaborators 3600 (\<lambda>t. t) runbook_runs_example ''Untenanted'' ''E1'')
       = Inr 2"
    using t [THEN conjunct2, THEN conjunct2, THEN conjunct1]
    by (auto simp: runbook_runs_example_def run_matches_def truthy_def)
  from a b 1 2 show ?thesis by simp
qed

section \<open>The clock and the output\<close>

lemma rbind_cong_right:
  "m = m' \<Longrightarrow> (\<And>x. m' = Inr x \<Longrightarrow> f x = g x) \<Longrightarrow> rbind m f = rbind m' g"
  by (cases m') simp_all

lemma age_same:
  "same_phrases X ts a b \<Longrightarrow> parse_unknown_format_date X (dep_Created d) \<in> set ts \<Longrightarrow>
   deployment_age X a d = deployment_age X b d"
  by (simp add: same_phrases_def deployment_age_def)

lemma ts_items:
  "Items dashboard = Some items \<Longrightarrow> d \<in> set items \<Longrightarrow>
   parse_unknown_format_date X (dep_Created d) \<in> set (snapshot_timestamps X dashboard sts)"
  by (simp add: snapshot_timestamps_def or_empty_def)

lemma ts_releases:
  "Releases dashboard = Some releases \<Longrightarrow> r \<in> set releases \<Longrightarrow>
   map_of (rel_Deployments r) k = Some ds \<Longrightarrow> d \<in> set ds \<Longrightarrow>
   parse_unknown_format_date X (dep_Created d) \<in> set (snapshot_timestamps X dashboard sts)"
  by (force simp: snapshot_timestamps_def or_empty_def dest: map_of_SomeD)

lemma ts_runs:
  "RunbookRuns dashboard = Some rr \<Longrightarrow> dict_item rr k = Inr runs \<Longrightarrow> run \<in> set runs \<Longrightarrow>
   parse_unknown_format_date X (run_Created run) \<in> set (snapshot_timestamps X dashboard sts)"
  by (force simp: snapshot_timestamps_def or_empty_def dict_item_def lookup_key_def
        split: option.splits dest: map_of_SomeD)

lemma ts_statuses:
  "s \<in> set (or_empty sts) \<Longrightarrow> gas_CreatedAt s = Some t \<Longrightarrow>
   t \<in> set (snapshot_timestamps X dashboard sts)"
  by (force simp: snapshot_timestamps_def)

lemma status_same:
  assumes "same_phrases X (snapshot_timestamps X dashboard sts) a b"
  shows "get_project_workflow_status X a sts project_id =
         get_project_workflow_status X b sts project_id"
proof (cases "find (\<lambda>x. gas_ProjectId x = project_id \<and> truthy (gas_Status x)) (or_empty sts)")
  case None
  then show ?thesis by (simp add: get_project_workflow_status_def)
next
  case (Some s)
  then have "s \<in> set (or_empty sts)"
    by (auto simp: find_Some_iff)
  then have "\<And>t. gas_CreatedAt s = Some t \<Longrightarrow>
      get_date_difference_summary X (a - t) = get_date_difference_summary X (b - t)"
    using assms ts_statuses [of s sts _ X dashboard] by (simp add: same_phrases_def)
  with Some show ?thesis
    by (simp add: get_project_workflow_status_def split: option.splits)
qed

lemma message_same:
  assumes "same_phrases X (snapshot_timestamps X dashboard sts) a b"
  shows "project_message X a github_repo sts project_id pull_requests issues =
         project_message X b github_repo sts project_id pull_requests issues"
  by (simp add: project_message_def status_same [OF assms])

lemma environment_cell_same:
  assumes "same_phrases X (snapshot_timestamps X dashboard sts) a b"
  shows "dashboard_environment_cell X a octopus_url space_id dashboard project environment =
         dashboard_environment_cell X b octopus_url space_id dashboard project environment"
proof (cases "Items dashboard")
  case None
  then show ?thesis by (simp add: dashboard_environment_cell_def lookup_key_def)
next
  case (Some items)
  show ?thesis
  proof (cases "filter (\<lambda>d. dep_ProjectId d = proj_Id project \<and> dep_EnvironmentId d = environment)
                   items")
    case Nil
    with Some show ?thesis by (simp add: dashboard_environment_cell_def lookup_key_def)
  next
    case (Cons d ds)
    then have "d \<in> set items"
      by (metis filter_is_subset list.set_intros(1) subsetD)
    then have "deployment_age X a d = deployment_age X b d"
      using age_same [OF assms] ts_items [OF Some] by simp
    with Some Cons show ?thesis by (simp add: dashboard_environment_cell_def lookup_key_def)
  qed
qed

lemma project_cells_same:
  assumes "same_phrases X (snapshot_timestamps X dashboard sts) a b"
    and "same_phrases X (snapshot_timestamps X dashboard sts) wa wb"
  shows "dashboard_project_cells X a wa octopus_url space_id dashboard github_actions sts
           pull_requests issues project_group project =
         dashboard_project_cells X b wb octopus_url space_id dashboard github_actions sts
           pull_requests issues project_group project"
proof -
  have "dashboard_environment_cell X a octopus_url space_id dashboard project =
        dashboard_environment_cell X b octopus_url space_id dashboard project"
    by (rule ext) (rule environment_cell_same [OF assms(1)])
  then show ?thesis
    by (simp add: dashboard_project_cells_def dashboard_github_cell_def
          status_same [OF assms(2)])
qed

lemma project_rows_same:
  assumes "\<forall>n. same_phrases X (snapshot_timestamps X dashboard sts) (c1 n) (c2 n)"
  shows "dashboard_project_rows X c1 octopus_url space_id dashboard github_actions sts
           pull_requests issues project_group n projects =
         dashboard_project_rows X c2 octopus_url space_id dashboard github_actions sts
           pull_requests issues project_group n projects"
proof (induction projects arbitrary: n)
  case Nil
  show ?case by simp
next
  case (Cons p ps)
  have "dashboard_project_cells X (c1 0) (c1 n) octopus_url space_id dashboard github_actions
          sts pull_requests issues project_group p =
        dashboard_project_cells X (c2 0) (c2 n) octopus_url space_id dashboard github_actions
          sts pull_requests issues project_group p"
    using assms by (intro project_cells_same) simp_all
  then show ?case by (simp add: Cons.IH)
qed

lemma group_same:
  assumes "\<forall>n. same_phrases X (snapshot_timestamps X dashboard sts) (c1 n) (c2 n)"
  shows "dashboard_group X c1 octopus_url space_id dashboard github_actions sts
           pull_requests issues n project_group =
         dashboard_group X c2 octopus_url space_id dashboard github_actions sts
           pull_requests issues n project_group"
  by (simp add: dashboard_group_def project_rows_same [OF assms])

lemma groups_same:
  assumes "\<forall>n. same_phrases X (snapshot_timestamps X dashboard sts) (c1 n) (c2 n)"
  shows "dashboard_groups X c1 octopus_url space_id dashboard github_actions sts
           pull_requests issues n groups =
         dashboard_groups X c2 octopus_url space_id dashboard github_actions sts
           pull_requests issues n groups"
proof (induction groups arbitrary: n)
  case Nil
  show ?case by simp
next
  case (Cons g gs)
  show ?case
    by (simp add: group_same [OF assms] Cons.IH cong: rbind_cong_right)
qed


lemma dashboard_same:
  assumes "\<forall>n. same_phrases X (snapshot_timestamps X dashboard sts) (c1 n) (c2 n)"
  shows "get_dashboard_response X c1 octopus_url space_id space_name dashboard github_actions
           sts pull_requests issues =
         get_dashboard_response X c2 octopus_url space_id space_name dashboard github_actions
           sts pull_requests issues"
  by (simp add: get_dashboard_response_def groups_same [OF assms])

lemma release_cells_same:
  assumes "same_phrases X (snapshot_timestamps X dashboard sts) a b"
    and "Releases dashboard = Some releases" and "release \<in> set releases"
  shows "project_release_cells X a octopus_url space_id release_workflow_runs
           deployment_highlights environment release =
         project_release_cells X b octopus_url space_id release_workflow_runs
           deployment_highlights environment release"
proof (cases "map_of (rel_Deployments release) (env_Id environment)")
  case None
  then show ?thesis by (simp add: project_release_cells_def)
next
  case (Some ds)
  have "\<And>d. d \<in> set ds \<Longrightarrow> deployment_age X a d = deployment_age X b d"
    using age_same [OF assms(1)] ts_releases [OF assms(2,3) Some] by simp
  with Some show ?thesis by (simp add: project_release_cells_def)
qed

lemma project_dashboard_cells_same:
  assumes "same_phrases X (snapshot_timestamps X dashboard sts) a b"
  shows "project_dashboard_cells X a octopus_url space_id dashboard release_workflow_runs
           deployment_highlights =
         project_dashboard_cells X b octopus_url space_id dashboard release_workflow_runs
           deployment_highlights"
proof (cases "Releases dashboard")
  case None
  then show ?thesis by (simp add: project_dashboard_cells_def lookup_key_def)
next
  case (Some releases)
  have "\<And>environment.
          map (project_release_cells X a octopus_url space_id release_workflow_runs
                 deployment_highlights environment) releases =
          map (project_release_cells X b octopus_url space_id release_workflow_runs
                 deployment_highlights environment) releases"
    using release_cells_same [OF assms Some] by simp
  with Some show ?thesis
    by (simp add: project_dashboard_cells_def lookup_key_def cong: map_cong)
qed

lemma project_dashboard_same:
  assumes "\<forall>n. same_phrases X (snapshot_timestamps X dashboard sts) (c1 n) (c2 n)"
  shows "get_project_dashboard_response X c1 octopus_url space_id space_name project_name
           project_id dashboard github_repo sts pull_request issue release_workflow_runs
           deployment_highlights =
         get_project_dashboard_response X c2 octopus_url space_id space_name project_name
           project_id dashboard github_repo sts pull_request issue release_workflow_runs
           deployment_highlights"
proof -
  have a: "same_phrases X (snapshot_timestamps X dashboard sts) (c1 0) (c2 0)"
    and b: "same_phrases X (snapshot_timestamps X dashboard sts) (c1 (Suc 0)) (c2 (Suc 0))"
    using assms by simp_all
  show ?thesis
    by (simp add: get_project_dashboard_response_def message_same [OF b]
          project_dashboard_cells_same [OF a])
qed

lemma tenant_column_same:
  assumes "same_phrases X (snapshot_timestamps X dashboard sts) a b"
    and "Items dashboard = Some items"
  shows "tenant_column X a space_id api_key url release_workflow_runs deployment_highlights
           tenant items environment =
         tenant_column X b space_id api_key url release_workflow_runs deployment_highlights
           tenant items environment"
proof (cases "tenant_deployment tenant environment items")
  case None
  then show ?thesis by (simp add: tenant_column_def)
next
  case (Some d)
  then have "d \<in> set items"
    by (auto simp: tenant_deployment_def find_Some_iff)
  then have "deployment_age X a d = deployment_age X b d"
    using age_same [OF assms(1)] ts_items [OF assms(2)] by simp
  with Some show ?thesis by (simp add: tenant_column_def)
qed

lemma tenant_columns_same:
  assumes "same_phrases X (snapshot_timestamps X dashboard sts) a b"
  shows "tenant_columns X a space_id api_key url release_workflow_runs deployment_highlights
           dashboard tenant environments =
         tenant_columns X b space_id api_key url release_workflow_runs deployment_highlights
           dashboard tenant environments"
proof (cases "Items dashboard")
  case None
  then show ?thesis by (simp add: tenant_columns_def lookup_key_def)
next
  case (Some items)
  then show ?thesis
    by (simp add: tenant_columns_def lookup_key_def tenant_column_same [OF assms Some])
qed

lemma tenant_section_same:
  assumes "same_phrases X (snapshot_timestamps X dashboard sts) a b"
  shows "tenant_section X a space_id api_key url project_id release_workflow_runs
           deployment_highlights dashboard tenant =
         tenant_section X b space_id api_key url project_id release_workflow_runs
           deployment_highlights dashboard tenant"
  by (simp add: tenant_section_def tenant_table_def tenant_columns_same [OF assms])

lemma tenant_progression_same:
  assumes "\<forall>n. same_phrases X (snapshot_timestamps X dashboard sts) (c1 n) (c2 n)"
  shows "get_project_tenant_progression_response X c1 space_id space_name project_name
           project_id dashboard github_repo sts release_workflow_runs pull_request issue
           deployment_highlights api_key url =
         get_project_tenant_progression_response X c2 space_id space_name project_name
           project_id dashboard github_repo sts release_workflow_runs pull_request issue
           deployment_highlights api_key url"
proof -
  have a: "same_phrases X (snapshot_timestamps X dashboard sts) (c1 0) (c2 0)"
    and b: "same_phrases X (snapshot_timestamps X dashboard sts) (c1 (Suc 0)) (c2 (Suc 0))"
    using assms by simp_all
  have "tenant_section X (c1 0) space_id api_key url project_id release_workflow_runs
           deployment_highlights dashboard =
        tenant_section X (c2 0) space_id api_key url project_id release_workflow_runs
           deployment_highlights dashboard"
    by (rule ext) (rule tenant_section_same [OF a])
  then show ?thesis
    by (simp add: get_project_tenant_progression_response_def message_same [OF b])
qed

lemma runbook_rows_same:
  assumes "same_phrases X (snapshot_timestamps X dashboard sts) a b"
    and "RunbookRuns dashboard = Some rr"
  shows "runbook_rows X a get_tenant rr tenant environment =
         runbook_rows X b get_tenant rr tenant environment"
proof (cases "dict_item rr environment")
  case (Inl e)
  then show ?thesis by (simp add: runbook_rows_def)
next
  case (Inr runs)
  have "\<And>run. run \<in> set runs \<Longrightarrow>
          build_runbook_run_columns X run a get_tenant =
          build_runbook_run_columns X run b get_tenant"
    using assms(1) ts_runs [OF assms(2) Inr]
    by (simp add: build_runbook_run_columns_def same_phrases_def)
  then have "rmap (\<lambda>run. build_markdown_table_row
                      (map Some (build_runbook_run_columns X run a get_tenant)))
               (filter (run_matches tenant) runs) =
             rmap (\<lambda>run. build_markdown_table_row
                      (map Some (build_runbook_run_columns X run b get_tenant)))
               (filter (run_matches tenant) runs)"
    by (intro rmap_cong) simp
  with Inr show ?thesis by (simp add: runbook_rows_def)
qed

lemma runbook_same:
  assumes "\<forall>n. same_phrases X (snapshot_timestamps X dashboard sts) (c1 n) (c2 n)"
  shows "get_runbook_dashboard_response X c1 project runbook dashboard get_tenant =
         get_runbook_dashboard_response X c2 project runbook dashboard get_tenant"
proof (cases "RunbookRuns dashboard")
  case None
  then show ?thesis
    by (simp add: get_runbook_dashboard_response_def get_tenants_def lookup_key_def)
next
  case (Some rr)
  have a: "same_phrases X (snapshot_timestamps X dashboard sts) (c1 0) (c2 0)"
    using assms by simp
  have "\<And>tenant. runbook_rows X (c1 0) get_tenant rr tenant =
                  runbook_rows X (c2 0) get_tenant rr tenant"
    by (rule ext) (rule runbook_rows_same [OF a Some])
  then have "\<And>tenants. runbook_body X (c1 0) get_tenant rr tenants (dict_keys rr) =
                   runbook_body X (c2 0) get_tenant rr tenants (dict_keys rr)"
    by (simp add: runbook_body_def)
  with Some show ?thesis
    by (simp add: get_runbook_dashboard_response_def lookup_key_def)
qed

text \<open>
  C3, as amended. No render entry point takes the time as an argument: each reads the
  system clock itself, once at entry and once more in every call of
  \<open>get_project_workflow_status\<close>. The output is a function of the arguments, of these
  clock readings and of the collaborators (the date parser, the relative-time formatter,
  the channel lookup), and the clock readings reach the output only through the
  relative-time phrases: two clocks whose readings give the same phrase for every
  timestamp of the input give the same output, in all four entry points.
\<close>

theorem clock_only_through_phrases:
  assumes "\<forall>n. same_phrases X (snapshot_timestamps X dashboard statuses) (clock1 n) (clock2 n)"
  shows "get_dashboard_response X clock1 octopus_url space_id space_name dashboard
           github_actions statuses pull_requests issues =
         get_dashboard_response X clock2 octopus_url space_id space_name dashboard
           github_actions statuses pull_requests issues
     \<and> get_project_dashboard_response X clock1 octopus_url space_id space_name project_name
           project_id dashboard github_repo statuses pull_request issue release_workflow_runs
           deployment_highlights =
         get_project_dashboard_response X clock2 octopus_url space_id space_name project_name
           project_id dashboard github_repo statuses pull_request issue release_workflow_runs
           deployment_highlights
     \<and> get_project_tenant_progression_response X clock1 space_id space_name project_name
           project_id dashboard github_repo statuses release_workflow_runs pull_request issue
           deployment_highlights api_key url =
         get_project_tenant_progression_response X clock2 space_id space_name project_name
           project_id dashboard github_repo statuses release_workflow_runs pull_request issue
           deployment_highlights api_key url
     \<and> get_runbook_dashboard_response X clock1 project runbook dashboard get_tenant =
         get_runbook_dashboard_response X clock2 project runbook dashboard get_tenant"
  using dashboard_same [OF assms] project_dashboard_same [OF assms]
    tenant_progression_same [OF assms] runbook_same [OF assms]
  by simp

theorem clock_only_through_phrases_witness:
  "(\<forall>n. same_phrases scenario_collaborators
          (snapshot_timestamps scenario_collaborators two_release_dashboard (Some status_example))
          (steady_clock n) (earlier_clock n))
   \<and> steady_clock 0 \<noteq> earlier_clock 0
   \<and> get_project_dashboard_response scenario_collaborators steady_clock ''https://octopus''
        ''Spaces-1'' ''Main'' ''WebApp'' ''P1'' two_release_dashboard None (Some status_example)
        None None None None
     = get_project_dashboard_response scenario_collaborators earlier_clock ''https://octopus''
        ''Spaces-1'' ''Main'' ''WebApp'' ''P1'' two_release_dashboard None (Some status_example)
        None None None None"
proof -
  have h: "\<forall>n. same_phrases scenario_collaborators
          (snapshot_timestamps scenario_collaborators two_release_dashboard (Some status_example))
          (steady_clock n) (earlier_clock n)"
    by (simp add: same_phrases_def snapshot_timestamps_def two_release_dashboard_def
          status_example_def or_empty_def steady_clock_def earlier_clock_def
          scenario_collaborators_def date_difference_summary_def)
  have d: "steady_clock 0 \<noteq> earlier_clock 0"
    by (simp add: steady_clock_def earlier_clock_def)
  from h d clock_only_through_phrases [OF h] show ?thesis by simp
qed

text \<open>
  C3, as stated, fails: the time at entry of a call does not determine the output. With
  the same arguments and the same reading at entry, the project dashboard differs when
  the second reading of the clock, the one \<open>get_project_workflow_status\<close> takes, has
  moved from 59 minutes to one hour after the workflow's creation.
\<close>

theorem single_now_counterexample:
  "steady_clock 0 = ticking_clock 0
   \<and> get_project_dashboard_response scenario_collaborators steady_clock ''https://octopus''
        ''Spaces-1'' ''Main'' ''WebApp'' ''P1'' two_release_dashboard None (Some status_example)
        None None None None
     \<noteq> get_project_dashboard_response scenario_collaborators ticking_clock ''https://octopus''
        ''Spaces-1'' ''Main'' ''WebApp'' ''P1'' two_release_dashboard None (Some status_example)
        None None None None"
  by (simp add: render_defs project_defs two_release_dashboard_def status_example_def
        steady_clock_def ticking_clock_def scenario_collaborators_def truthy_def
        date_difference_summary_def unit_phrase_def str_int_def str_nat.simps)

section \<open>Missing keys\<close>

subsection \<open>Calls that return\<close>

lemma returns_Inr [simp]: "returns (Inr x)"
  by (simp add: returns_def)

lemma returns_Inl [simp]: "\<not> returns (Inl e)"
  by (simp add: returns_def)






lemma returns_lookup_key [simp]: "returns (lookup_key k v) \<longleftrightarrow> v \<noteq> None"
  by (cases v) (simp_all add: lookup_key_def)



subsection \<open>Only missing keys are reported\<close>

lemma sound_Inr [simp]: "key_errors_sound d (Inr x)"
  by (simp add: key_errors_sound_def)

lemma sound_TypeError [simp]: "key_errors_sound d (Inl TypeError)"
  by (simp add: key_errors_sound_def)






subsection \<open>The space dashboard\<close>



















subsection \<open>The project dashboard\<close>





subsection \<open>The tenant view\<close>












subsection \<open>The runbook view\<close>












subsection \<open>The key that is reported\<close>










subsection \<open>Each view\<close>








end
